theory Spec2Isabelle
  imports Complex_Main "HOL-Library.Multiset"
begin

section \<open>Common values\<close>

text \<open>
  Exceptions of the Python sources are values.  Each constructor is the class of the
  exception raised; the message is kept where the source builds one from its data.
\<close>

datatype error =
    KeyError string
  | ValueError string
  | TimeoutError string
  | NameError string
  | TypeError string
  | AttributeError string string
  | BackendError string
  | DataError string
  | ResponseError string

text \<open>
  \<open>KeyError k\<close> holds the key and \<open>NameError n\<close> the name; \<open>AttributeError t a\<close> the type of the
  object and the attribute; \<open>DataError\<close> is the Redis client's refusal of an input and
  \<open>ResponseError\<close> an error answer of the server; the others hold the message.  The
  message of an exception of the Azure SDK is not known here: \<open>BackendError\<close> holds the name
  of the VM the call was about.
\<close>

definition quoted :: "string \<Rightarrow> string" where
  "quoted s = [CHR 0x27] @ s @ [CHR 0x27]"

text \<open>Decimal rendering of a natural number, as \<^verbatim>\<open>str(int(...))\<close> prints it.\<close>

definition digit_char :: "nat \<Rightarrow> char" where
  "digit_char d = ''0123456789'' ! d"

fun string_of_nat :: "nat \<Rightarrow> string" where
  "string_of_nat n =
     (if n < 10 then [digit_char n] else string_of_nat (n div 10) @ [digit_char (n mod 10)])"

declare string_of_nat.simps [simp del]

section \<open>VM pool (tasks/vm\_pool\_manager.py)\<close>

text \<open>
  \<^verbatim>\<open>VMInfo\<close> is a mutable dataclass.  The same object is referenced from the tracking
  dictionary \<^verbatim>\<open>all_vms\<close> and from the per-label queue, and \<^verbatim>\<open>acquire_vm\<close> mutates it
  through the queue's reference, so the objects live in an explicit heap and both
  containers hold references.  Times are seconds since the epoch.
\<close>

record VMInfo =
  vm_name :: string
  resource_group :: string
  edr_solution :: string
  status :: string
  public_ip :: string
  private_ip :: string
  created_at :: nat
  last_used_at :: "nat option"
  use_count :: int

text \<open>The dictionary \<^verbatim>\<open>acquire_vm\<close> hands to its caller and \<^verbatim>\<open>release_vm\<close> receives.\<close>

record vm_dict =
  d_vm_name :: string
  d_resource_group :: string
  d_public_ip :: string
  d_private_ip :: string
  d_edr_solution :: string

text \<open>Calls made to the Azure compute client, in order.\<close>

datatype azure_call =
    BeginCreate string
  | BeginDelete string
  | RunCleanup string
  | RunExecute string

text \<open>
  The manager object.  \<^verbatim>\<open>vm_lock\<close> is a \<^verbatim>\<open>threading.Lock()\<close>, which is not re-entrant:
  the field records whether it is held.  A \<^verbatim>\<open>Queue\<close> is the list of its items, oldest
  first.  In the program a reference always denotes an object; the functions below
  have a branch for a reference without an object only to be total.
\<close>

record pool_state =
  heap :: "nat \<rightharpoonup> VMInfo"
  next_ref :: nat
  all_vms :: "string \<rightharpoonup> nat"
  pools :: "string \<rightharpoonup> nat list"
  vm_lock :: bool
  azure_log :: "azure_call list"

text \<open>
  Configuration read in \<^verbatim>\<open>__init__\<close>, and the outcome of the Azure calls, which the
  sources reach through the SDK: whether creating, deleting or running the cleanup
  script on a VM of a given name succeeds (an SDK exception otherwise).
\<close>

record pool_config =
  max_vm_uses :: int
  base_images :: "string \<rightharpoonup> string"
  azure_resource_group :: string

record azure =
  az_create :: "string \<Rightarrow> (string \<times> string) option"
  az_delete :: "string \<Rightarrow> bool"
  az_cleanup :: "string \<Rightarrow> bool"
  az_execute :: "string \<Rightarrow> string option option"

text \<open>
  A call either returns or blocks for ever on the lock it already holds; the latter
  keeps the manager's state at that moment.
\<close>

datatype 'a exec = Returns 'a | Blocked pool_state

text \<open>Threads started by \<^verbatim>\<open>threading.Thread(target=..., args=...).start()\<close>.\<close>

datatype thread = CleanAndReturn nat

definition log_call :: "azure_call \<Rightarrow> pool_state \<Rightarrow> pool_state" where
  "log_call c s = s\<lparr>azure_log := azure_log s @ [c]\<rparr>"

text \<open>\<^verbatim>\<open>self.pools[label].put(ref)\<close>; an unknown label is a \<^verbatim>\<open>KeyError\<close>.\<close>

definition queue_put :: "string \<Rightarrow> nat \<Rightarrow> pool_state \<Rightarrow> error + pool_state" where
  "queue_put label r s =
     (case pools s label of
        None \<Rightarrow> Inl (KeyError label)
      | Some q \<Rightarrow> Inr (s\<lparr>pools := (pools s)(label \<mapsto> q @ [r])\<rparr>))"

definition set_status :: "nat \<Rightarrow> string \<Rightarrow> pool_state \<Rightarrow> pool_state" where
  "set_status r st s =
     (case heap s r of
        None \<Rightarrow> s
      | Some v \<Rightarrow> s\<lparr>heap := (heap s)(r \<mapsto> v\<lparr>status := st\<rparr>)\<rparr>)"

text \<open>
  \<^verbatim>\<open>_provision_vm\<close>: a missing or empty base image raises \<^verbatim>\<open>ValueError\<close>; the NIC, the
  public address, the VM and the address lookup are Azure calls.  The function returns
  a new \<^verbatim>\<open>VMInfo\<close>, available and never used.
\<close>

definition provision_vm ::
  "pool_config \<Rightarrow> azure \<Rightarrow> nat \<Rightarrow> string \<Rightarrow> string \<Rightarrow> pool_state \<Rightarrow> (error + VMInfo) \<times> pool_state"
where
  "provision_vm cfg az now name label s =
     (case base_images cfg label of
        None \<Rightarrow> (Inl (ValueError (''No base image configured for '' @ label)), s)
      | Some img \<Rightarrow>
          if img = [] then (Inl (ValueError (''No base image configured for '' @ label)), s)
          else
            (case az_create az name of
               None \<Rightarrow> (Inl (BackendError name), log_call (BeginCreate name) s)
             | Some (pub, priv) \<Rightarrow>
                 (Inr \<lparr>vm_name = name, resource_group = azure_resource_group cfg,
                       edr_solution = label, status = ''available'',
                       public_ip = pub, private_ip = priv, created_at = now,
                       last_used_at = None, use_count = 0\<rparr>,
                  log_call (BeginCreate name) s)))"

definition delete_vm :: "azure \<Rightarrow> VMInfo \<Rightarrow> pool_state \<Rightarrow> (error + unit) \<times> pool_state" where
  "delete_vm az v s =
     (if az_delete az (vm_name v) then (Inr (), log_call (BeginDelete (vm_name v)) s)
      else (Inl (BackendError (vm_name v)), log_call (BeginDelete (vm_name v)) s))"

text \<open>
  \<^verbatim>\<open>_recycle_vm\<close>.  Every exception inside the \<^verbatim>\<open>try\<close> is logged and swallowed.  The
  tracking update is under \<^verbatim>\<open>with self.vm_lock\<close>: when the lock is already held the
  call never gets past that line.
\<close>

definition recycle_vm ::
  "pool_config \<Rightarrow> azure \<Rightarrow> nat \<Rightarrow> nat \<Rightarrow> pool_state \<Rightarrow> pool_state exec"
where
  "recycle_vm cfg az now r s =
     (case heap s r of
        None \<Rightarrow> Returns s
      | Some v \<Rightarrow>
          (case delete_vm az v s of
             (Inl e, s1) \<Rightarrow> Returns s1
           | (Inr u, s1) \<Rightarrow>
               (let new_vm_name = ''edr-test-'' @ edr_solution v @ ''-'' @ string_of_nat now in
                case provision_vm cfg az now new_vm_name (edr_solution v) s1 of
                  (Inl e, s2) \<Rightarrow> Returns s2
                | (Inr new_vm_info, s2) \<Rightarrow>
                    if vm_lock s2 then Blocked s2
                    else
                      (case all_vms s2 (vm_name v) of
                         None \<Rightarrow> Returns s2
                       | Some old \<Rightarrow>
                           (let nr = next_ref s2;
                                s3 = s2\<lparr>heap := (heap s2)(nr \<mapsto> new_vm_info),
                                        next_ref := Suc nr,
                                        all_vms := ((all_vms s2)(vm_name v := None))
                                                     (new_vm_name \<mapsto> nr)\<rparr>
                            in case queue_put (edr_solution v) nr s3 of
                                 Inl e \<Rightarrow> Returns s3
                               | Inr s4 \<Rightarrow> Returns s4)))))"

text \<open>
  \<^verbatim>\<open>acquire_vm\<close>.  \<^verbatim>\<open>Queue.get(timeout=...)\<close> on an empty queue that nobody fills raises
  \<^verbatim>\<open>Empty\<close>, turned into \<^verbatim>\<open>TimeoutError\<close>.
\<close>

definition acquire_vm ::
  "nat \<Rightarrow> string \<Rightarrow> pool_state \<Rightarrow> ((error + vm_dict) \<times> pool_state) exec"
where
  "acquire_vm now label s =
     (case pools s label of
        None \<Rightarrow> Returns (Inl (KeyError label), s)
      | Some [] \<Rightarrow>
          Returns (Inl (TimeoutError (''No '' @ label @ '' VM available within 3600s'')), s)
      | Some (r # q) \<Rightarrow>
          (let s1 = s\<lparr>pools := (pools s)(label \<mapsto> q)\<rparr> in
           if vm_lock s1 then Blocked s1
           else
             (case heap s1 r of
                None \<Rightarrow> Returns (Inl (AttributeError ''NoneType'' ''status''), s1)
              | Some v \<Rightarrow>
                  (let v' = v\<lparr>status := ''in_use'', last_used_at := Some now,
                              use_count := use_count v + 1\<rparr>
                   in Returns
                        (Inr \<lparr>d_vm_name = vm_name v', d_resource_group = resource_group v',
                              d_public_ip = public_ip v', d_private_ip = private_ip v',
                              d_edr_solution = edr_solution v'\<rparr>,
                         s1\<lparr>heap := (heap s1)(r \<mapsto> v')\<rparr>)))))"

text \<open>
  \<^verbatim>\<open>release_vm\<close>.  The whole body runs under \<^verbatim>\<open>with self.vm_lock\<close>; the lock is released
  on every way out of the block.  The result is the exception that escapes (if any),
  the threads started, and the state.
\<close>

definition release_vm ::
  "pool_config \<Rightarrow> azure \<Rightarrow> nat \<Rightarrow> vm_dict \<Rightarrow> bool \<Rightarrow> pool_state
     \<Rightarrow> (error option \<times> thread list \<times> pool_state) exec"
where
  "release_vm cfg az now vm clean s =
     (if vm_lock s then Blocked s
      else
        (let s0 = s\<lparr>vm_lock := True\<rparr> in
         case all_vms s0 (d_vm_name vm) of
           None \<Rightarrow> Returns (None, [], s0\<lparr>vm_lock := False\<rparr>)
         | Some r \<Rightarrow>
             (case heap s0 r of
                None \<Rightarrow>
                  Returns (Some (AttributeError ''NoneType'' ''use_count''), [],
                           s0\<lparr>vm_lock := False\<rparr>)
              | Some vm_info \<Rightarrow>
                  if use_count vm_info \<ge> max_vm_uses cfg then
                    (case recycle_vm cfg az now r s0 of
                       Blocked b \<Rightarrow> Blocked b
                     | Returns s1 \<Rightarrow> Returns (None, [], s1\<lparr>vm_lock := False\<rparr>))
                  else if clean then
                    Returns (None, [CleanAndReturn r],
                             (set_status r ''cleaning'' s0)\<lparr>vm_lock := False\<rparr>)
                  else
                    (case queue_put (d_edr_solution vm) r (set_status r ''available'' s0) of
                       Inl e \<Rightarrow>
                         Returns (Some e, [],
                                  (set_status r ''available'' s0)\<lparr>vm_lock := False\<rparr>)
                     | Inr s1 \<Rightarrow> Returns (None, [], s1\<lparr>vm_lock := False\<rparr>)))))"

text \<open>
  \<^verbatim>\<open>_clean_and_return_vm\<close>, the body of the thread \<^verbatim>\<open>release_vm\<close> starts.  It runs the
  cleanup script, marks the VM available under the lock and puts it back; any exception
  sends the VM to \<^verbatim>\<open>_recycle_vm\<close>.
\<close>

definition clean_and_return_vm ::
  "pool_config \<Rightarrow> azure \<Rightarrow> nat \<Rightarrow> nat \<Rightarrow> pool_state \<Rightarrow> pool_state exec"
where
  "clean_and_return_vm cfg az now r s =
     (case heap s r of
        None \<Rightarrow> Returns s
      | Some v \<Rightarrow>
          (let s1 = log_call (RunCleanup (vm_name v)) s in
           if \<not> az_cleanup az (vm_name v) then recycle_vm cfg az now r s1
           else if vm_lock s1 then Blocked s1
           else
             (case queue_put (edr_solution v) r (set_status r ''available'' s1) of
                Inl e \<Rightarrow> recycle_vm cfg az now r (set_status r ''available'' s1)
              | Inr s2 \<Rightarrow> Returns s2)))"

text \<open>The manager as \<^verbatim>\<open>__init__\<close> leaves it: three empty queues, nothing tracked.\<close>

definition init_pool :: pool_state where
  "init_pool =
     \<lparr>heap = Map.empty, next_ref = 0, all_vms = Map.empty,
      pools = [''crowdstrike'' \<mapsto> [], ''sentinelone'' \<mapsto> [], ''sophos'' \<mapsto> []],
      vm_lock = False, azure_log = []\<rparr>"

section \<open>Job store (tasks/job\_manager.py)\<close>

text \<open>
  Python values that reach the store.  The store keeps text; two constructors stand for
  texts of a known origin: \<open>PIso t\<close> is the text \<^verbatim>\<open>datetime.isoformat()\<close> returns for the
  instant \<open>t\<close>, and \<open>PJson v\<close> is the text \<^verbatim>\<open>json.dumps(v)\<close> returns.  A number in the store
  is the number whose decimal text is held.  Floats are exact rationals.
\<close>

datatype pyval =
    PNone
  | PBool bool
  | PInt int
  | PFloat rat
  | PStr string
  | PDatetime nat
  | PIso nat
  | PList "pyval list"
  | PDict "(string \<times> pyval) list"
  | PJson pyval

type_synonym pydict = "string \<rightharpoonup> pyval"

text \<open>\<^verbatim>\<open>type(v).__name__\<close>; the stored texts are of type \<^verbatim>\<open>str\<close>.\<close>

definition type_name :: "pyval \<Rightarrow> string" where
  "type_name v =
     (case v of
        PNone \<Rightarrow> ''NoneType'' | PBool b \<Rightarrow> ''bool'' | PInt i \<Rightarrow> ''int''
      | PFloat q \<Rightarrow> ''float'' | PDatetime t \<Rightarrow> ''datetime'' | PList xs \<Rightarrow> ''list''
      | PDict d \<Rightarrow> ''dict'' | _ \<Rightarrow> ''str'')"

text \<open>\<^verbatim>\<open>json.dumps\<close> raises \<^verbatim>\<open>TypeError\<close> on a \<^verbatim>\<open>datetime\<close> anywhere inside the value.\<close>

fun json_serializable :: "pyval \<Rightarrow> bool" where
  "json_serializable (PDatetime t) = False"
| "json_serializable (PList xs) = list_all json_serializable xs"
| "json_serializable (PDict kvs) = list_all json_serializable (map snd kvs)"
| "json_serializable v = True"

definition json_dumps :: "pyval \<Rightarrow> error + pyval" where
  "json_dumps v = (if json_serializable v then Inr (PJson v) else Inl (TypeError ''Object of type datetime is not JSON serializable''))"

text \<open>
  Integers written as text.  \<open>int_of_text\<close> reads what \<^verbatim>\<open>int()\<close> accepts: blanks around, an
  optional sign, digits with single underscores between them.  \<open>plain_int_of_text\<close> reads
  the plain form a JSON document and the Redis server accept: an optional minus sign
  and digits without a leading zero.
\<close>

definition is_digit :: "char \<Rightarrow> bool" where
  "is_digit c = (c \<in> set ''0123456789'')"

definition nat_of_digits :: "string \<Rightarrow> nat" where
  "nat_of_digits ds = foldl (\<lambda>n c. 10 * n + (of_char c - 48)) 0 ds"

definition is_blank :: "char \<Rightarrow> bool" where
  "is_blank c = (c \<in> set [CHR 0x20, CHR 0x09, CHR 0x0A, CHR 0x0B, CHR 0x0C, CHR 0x0D])"

definition strip :: "string \<Rightarrow> string" where
  "strip s = rev (dropWhile is_blank (rev (dropWhile is_blank s)))"

definition digit_groups :: "string \<Rightarrow> bool" where
  "digit_groups body =
     (body \<noteq> [] \<and> is_digit (hd body) \<and> is_digit (last body)
      \<and> list_all (\<lambda>c. is_digit c \<or> c = CHR ''_'') body
      \<and> list_all (\<lambda>(a, b). \<not> (a = CHR ''_'' \<and> b = CHR ''_'')) (zip body (tl body)))"

definition int_of_text :: "string \<Rightarrow> int option" where
  "int_of_text s =
     (case strip s of
        [] \<Rightarrow> None
      | c # r \<Rightarrow>
          (let negative = (c = CHR ''-'');
               body = (if c = CHR ''-'' \<or> c = CHR ''+'' then r else c # r)
           in if digit_groups body
              then Some ((if negative then - 1 else 1) * int (nat_of_digits (filter is_digit body)))
              else None))"

text \<open>
  Decimal texts as \<^verbatim>\<open>float()\<close> reads them: blanks around, an optional sign, digits with
  an optional point.  The value is the exact decimal; exponents, \<^verbatim>\<open>inf\<close> and \<^verbatim>\<open>nan\<close> are
  not read: a float of that form is held as \<open>PFloat\<close>.
\<close>

definition decimal_of_text :: "string \<Rightarrow> rat option" where
  "decimal_of_text s =
     (case strip s of
        [] \<Rightarrow> None
      | c # r \<Rightarrow>
          (let negative = (c = CHR ''-'');
               body = (if c = CHR ''-'' \<or> c = CHR ''+'' then r else c # r);
               whole = takeWhile (\<lambda>x. x \<noteq> CHR ''.'') body;
               fraction = drop (Suc (length whole)) body
           in if (whole = [] \<or> digit_groups whole) \<and> (fraction = [] \<or> digit_groups fraction)
                 \<and> (whole \<noteq> [] \<or> fraction \<noteq> [])
              then Some ((if negative then - 1 else 1)
                         * (of_nat (nat_of_digits (filter is_digit whole))
                            + of_nat (nat_of_digits (filter is_digit fraction))
                              / 10 ^ length (filter is_digit fraction)))
              else None))"

definition plain_int_of_text :: "string \<Rightarrow> int option" where
  "plain_int_of_text s =
     (let negative = (s \<noteq> [] \<and> hd s = CHR ''-'');
          body = (if negative then tl s else s)
      in if body \<noteq> [] \<and> list_all is_digit body \<and> (hd body \<noteq> CHR ''0'' \<or> length body = 1)
         then Some ((if negative then - 1 else 1) * int (nat_of_digits body))
         else None)"

text \<open>
  \<^verbatim>\<open>json.loads\<close> on a stored text: the text of \<^verbatim>\<open>json.dumps(v)\<close> parses back to \<open>v\<close>, the text
  of a number is that number, a \<^verbatim>\<open>str\<close> that spells a plain integer is that integer, and
  the other texts the program writes (status words, names, timestamps) are not JSON
  documents: \<^verbatim>\<open>JSONDecodeError\<close>.  A text that is a JSON document of another kind is
  always held as \<open>PJson\<close>.
\<close>

definition json_loads :: "pyval \<Rightarrow> pyval option" where
  "json_loads t =
     (case t of
        PJson v \<Rightarrow> Some v
      | PInt i \<Rightarrow> Some (PInt i)
      | PFloat q \<Rightarrow> Some (PFloat q)
      | PStr s \<Rightarrow> map_option PInt (plain_int_of_text s)
      | _ \<Rightarrow> None)"

text \<open>
  \<^verbatim>\<open>int(text)\<close> and \<^verbatim>\<open>float(text)\<close> as \<^verbatim>\<open>get_job\<close> applies them to a stored text.
  \<^verbatim>\<open>int\<close> refuses the text of a float.
\<close>

definition py_int :: "pyval \<Rightarrow> error + pyval" where
  "py_int t =
     (case t of
        PInt i \<Rightarrow> Inr (PInt i)
      | PStr s \<Rightarrow>
          (case int_of_text s of
             Some i \<Rightarrow> Inr (PInt i)
           | None \<Rightarrow> Inl (ValueError (''invalid literal for int() with base 10: '' @ quoted s)))
      | PJson (PInt i) \<Rightarrow> Inr (PInt i)
      | _ \<Rightarrow> Inl (ValueError ''invalid literal for int() with base 10''))"

definition py_float :: "pyval \<Rightarrow> error + pyval" where
  "py_float t =
     (case t of
        PInt i \<Rightarrow> Inr (PFloat (of_int i))
      | PFloat q \<Rightarrow> Inr (PFloat q)
      | PStr s \<Rightarrow>
          (case decimal_of_text s of
             Some q \<Rightarrow> Inr (PFloat q)
           | None \<Rightarrow> Inl (ValueError (''could not convert string to float: '' @ quoted s)))
      | PJson (PInt i) \<Rightarrow> Inr (PFloat (of_int i))
      | PJson (PFloat q) \<Rightarrow> Inr (PFloat q)
      | _ \<Rightarrow> Inl (ValueError ''could not convert string to float''))"

subsection \<open>The Redis commands the manager uses\<close>

text \<open>
  One key space; a key holds a hash or a list.  A command on a key of the other kind
  answers \<^verbatim>\<open>WRONGTYPE\<close>.  \<open>expires\<close> holds the instant at which a key with a time to live
  disappears; every command is given the current time, reads see an expired key as
  absent, and writes drop it first.

  The client is redis-py, created with \<^verbatim>\<open>decode_responses=True\<close>.  Before a command is
  sent it encodes every value: bytes, \<^verbatim>\<open>str\<close>, \<^verbatim>\<open>int\<close> and \<^verbatim>\<open>float\<close> are accepted, and
  \<^verbatim>\<open>None\<close>, a \<^verbatim>\<open>bool\<close> or any other object raises \<^verbatim>\<open>DataError\<close>; so does \<^verbatim>\<open>hset\<close> with an
  empty mapping.  Nothing is written when the client refuses.
\<close>

datatype rvalue = RHash pydict | RList "pyval list"

record redis =
  kv :: "string \<rightharpoonup> rvalue"
  expires :: "string \<rightharpoonup> nat"

definition wrongtype :: error where
  "wrongtype =
     ResponseError ''WRONGTYPE Operation against a key holding the wrong kind of value''"

definition expired :: "nat \<Rightarrow> redis \<Rightarrow> string \<Rightarrow> bool" where
  "expired now db k = (case expires db k of None \<Rightarrow> False | Some t \<Rightarrow> t \<le> now)"

definition lookup :: "nat \<Rightarrow> redis \<Rightarrow> string \<Rightarrow> rvalue option" where
  "lookup now db k = (if expired now db k then None else kv db k)"

definition purge :: "nat \<Rightarrow> string \<Rightarrow> redis \<Rightarrow> redis" where
  "purge now k db =
     (if expired now db k
      then db\<lparr>kv := (kv db)(k := None), expires := (expires db)(k := None)\<rparr>
      else db)"

definition hgetall :: "nat \<Rightarrow> string \<Rightarrow> redis \<Rightarrow> error + pydict" where
  "hgetall now k db =
     (case lookup now db k of
        None \<Rightarrow> Inr Map.empty
      | Some (RHash h) \<Rightarrow> Inr h
      | Some (RList xs) \<Rightarrow> Inl wrongtype)"

definition encodable :: "pyval \<Rightarrow> bool" where
  "encodable v =
     (case v of
        PInt i \<Rightarrow> True | PFloat q \<Rightarrow> True | PStr s \<Rightarrow> True | PIso t \<Rightarrow> True
      | PJson j \<Rightarrow> True | _ \<Rightarrow> False)"

definition invalid_input :: "pyval \<Rightarrow> error" where
  "invalid_input v =
     DataError (''Invalid input of type: '' @ quoted (type_name v)
                @ ''. Convert to a bytes, string, int or float first.'')"

text \<open>The first value of a command that the client refuses, if there is one.\<close>

definition refused :: "pyval list \<Rightarrow> pyval option" where
  "refused vs = (case filter (\<lambda>v. \<not> encodable v) vs of [] \<Rightarrow> None | v # rest \<Rightarrow> Some v)"

text \<open>The signed 64-bit range of the integers the server computes with.\<close>

definition int64 :: "int \<Rightarrow> bool" where
  "int64 i = (- (2 ^ 63) \<le> i \<and> i < 2 ^ 63)"

text \<open>\<^verbatim>\<open>hset(key, mapping=...)\<close>: the pairs are written in the order of the dictionary.\<close>

definition write_fields :: "(string \<times> pyval) list \<Rightarrow> pydict \<Rightarrow> pydict" where
  "write_fields m h = fold (\<lambda>(f, v) h'. h'(f \<mapsto> v)) m h"

definition hset :: "nat \<Rightarrow> string \<Rightarrow> (string \<times> pyval) list \<Rightarrow> redis \<Rightarrow> (error + unit) \<times> redis" where
  "hset now k m db =
     (if m = [] then (Inl (DataError (quoted ''hset'' @ '' with no key value pairs'')), db)
      else
        (case refused (map snd m) of
           Some v \<Rightarrow> (Inl (invalid_input v), db)
         | None \<Rightarrow>
             (let db' = purge now k db in
              case kv db' k of
                None \<Rightarrow>
                  (Inr (), db'\<lparr>kv := (kv db')(k \<mapsto> RHash (write_fields m Map.empty))\<rparr>)
              | Some (RHash h) \<Rightarrow>
                  (Inr (), db'\<lparr>kv := (kv db')(k \<mapsto> RHash (write_fields m h))\<rparr>)
              | Some (RList xs) \<Rightarrow> (Inl wrongtype, db'))))"

text \<open>
  \<^verbatim>\<open>HINCRBY\<close>: a missing field counts as 0; the field must hold the plain text of a signed
  64-bit integer, and the sum must stay in that range.
\<close>

definition stored_integer :: "pyval \<Rightarrow> int option" where
  "stored_integer t =
     (case (case t of
              PInt i \<Rightarrow> Some i
            | PStr s \<Rightarrow> (if s = ''-0'' then None else plain_int_of_text s)
            | PJson (PInt i) \<Rightarrow> Some i
            | _ \<Rightarrow> None) of
        None \<Rightarrow> None
      | Some i \<Rightarrow> if int64 i then Some i else None)"

definition hincrby :: "nat \<Rightarrow> string \<Rightarrow> string \<Rightarrow> int \<Rightarrow> redis \<Rightarrow> (error + unit) \<times> redis" where
  "hincrby now k f n db =
     (let db' = purge now k db in
      if \<not> int64 n then (Inl (ResponseError ''value is not an integer or out of range''), db')
      else
        (case kv db' k of
           None \<Rightarrow> (Inr (), db'\<lparr>kv := (kv db')(k \<mapsto> RHash [f \<mapsto> PInt n])\<rparr>)
         | Some (RHash h) \<Rightarrow>
             (case (case h f of None \<Rightarrow> Some 0 | Some t \<Rightarrow> stored_integer t) of
                None \<Rightarrow> (Inl (ResponseError ''hash value is not an integer''), db')
              | Some i \<Rightarrow>
                  if int64 (i + n)
                  then (Inr (), db'\<lparr>kv := (kv db')(k \<mapsto> RHash (h(f \<mapsto> PInt (i + n))))\<rparr>)
                  else (Inl (ResponseError ''increment or decrement would overflow''), db'))
         | Some (RList xs) \<Rightarrow> (Inl wrongtype, db')))"

definition rpush :: "nat \<Rightarrow> string \<Rightarrow> pyval \<Rightarrow> redis \<Rightarrow> (error + unit) \<times> redis" where
  "rpush now k v db =
     (if \<not> encodable v then (Inl (invalid_input v), db)
      else
        (let db' = purge now k db in
         case kv db' k of
           None \<Rightarrow> (Inr (), db'\<lparr>kv := (kv db')(k \<mapsto> RList [v])\<rparr>)
         | Some (RList xs) \<Rightarrow> (Inr (), db'\<lparr>kv := (kv db')(k \<mapsto> RList (xs @ [v]))\<rparr>)
         | Some (RHash h) \<Rightarrow> (Inl wrongtype, db')))"

definition lpush :: "nat \<Rightarrow> string \<Rightarrow> pyval \<Rightarrow> redis \<Rightarrow> (error + unit) \<times> redis" where
  "lpush now k v db =
     (if \<not> encodable v then (Inl (invalid_input v), db)
      else
        (let db' = purge now k db in
         case kv db' k of
           None \<Rightarrow> (Inr (), db'\<lparr>kv := (kv db')(k \<mapsto> RList [v])\<rparr>)
         | Some (RList xs) \<Rightarrow> (Inr (), db'\<lparr>kv := (kv db')(k \<mapsto> RList (v # xs))\<rparr>)
         | Some (RHash h) \<Rightarrow> (Inl wrongtype, db')))"

text \<open>
  \<^verbatim>\<open>LRANGE key start stop\<close>: both ends inclusive, negative indexes count from the end.
\<close>

definition lrange_slice :: "int \<Rightarrow> int \<Rightarrow> 'a list \<Rightarrow> 'a list" where
  "lrange_slice start stop xs =
     (let n = int (length xs);
          a = (if start < 0 then max 0 (n + start) else start);
          b = (if stop < 0 then n + stop else min stop (n - 1))
      in if a > b then [] else take (nat (b - a + 1)) (drop (nat a) xs))"

definition lrange :: "nat \<Rightarrow> string \<Rightarrow> int \<Rightarrow> int \<Rightarrow> redis \<Rightarrow> error + pyval list" where
  "lrange now k start stop db =
     (case lookup now db k of
        None \<Rightarrow> Inr []
      | Some (RList xs) \<Rightarrow> Inr (lrange_slice start stop xs)
      | Some (RHash h) \<Rightarrow> Inl wrongtype)"

text \<open>\<^verbatim>\<open>EXPIRE key seconds\<close> sets the time to live of a key that exists.\<close>

definition expire :: "nat \<Rightarrow> string \<Rightarrow> nat \<Rightarrow> redis \<Rightarrow> redis" where
  "expire now k secs db =
     (let db' = purge now k db in
      case kv db' k of
        None \<Rightarrow> db'
      | Some v \<Rightarrow> db'\<lparr>expires := (expires db')(k \<mapsto> now + secs)\<rparr>)"

definition delete_key :: "string \<Rightarrow> redis \<Rightarrow> redis" where
  "delete_key k db = db\<lparr>kv := (kv db)(k := None), expires := (expires db)(k := None)\<rparr>"

text \<open>\<^verbatim>\<open>LREM key 0 value\<close> removes every occurrence; a list left empty is removed.\<close>

definition lrem_all :: "nat \<Rightarrow> string \<Rightarrow> pyval \<Rightarrow> redis \<Rightarrow> (error + unit) \<times> redis" where
  "lrem_all now k v db =
     (let db' = purge now k db in
      case kv db' k of
        None \<Rightarrow> (Inr (), db')
      | Some (RList xs) \<Rightarrow>
          (if filter (\<lambda>x. x \<noteq> v) xs = [] then (Inr (), delete_key k db')
           else (Inr (), db'\<lparr>kv := (kv db')(k \<mapsto> RList (filter (\<lambda>x. x \<noteq> v) xs))\<rparr>))
      | Some (RHash h) \<Rightarrow> (Inl wrongtype, db'))"

subsection \<open>JobManager\<close>

definition job_key :: "string \<Rightarrow> string" where
  "job_key job_id = ''job:'' @ job_id"

definition phase_key :: "string \<Rightarrow> string \<Rightarrow> string" where
  "phase_key job_id phase = ''job:'' @ job_id @ '':'' @ phase"

definition jobs_list_key :: string where
  "jobs_list_key = ''jobs:list''"

text \<open>
  Sequencing of store operations: the first exception ends the call.  Every call of the
  manager and of a task is given one reading of the clock, used for each
  \<^verbatim>\<open>datetime.now()\<close> of the call and as the time of its store commands.
\<close>

definition and_then ::
  "(error + 'a) \<times> redis \<Rightarrow> ('a \<Rightarrow> redis \<Rightarrow> (error + 'b) \<times> redis) \<Rightarrow> (error + 'b) \<times> redis"
where
  "and_then m f = (case m of (Inl e, db) \<Rightarrow> (Inl e, db) | (Inr a, db) \<Rightarrow> f a db)"

definition create_job ::
  "nat \<Rightarrow> string \<Rightarrow> string \<Rightarrow> string list option \<Rightarrow> int list \<Rightarrow> string \<Rightarrow> redis
     \<Rightarrow> (error + unit) \<times> redis"
where
  "create_job now job_id container_name file_paths phases priority db =
     and_then
       (hset now (job_key job_id)
          [(''job_id'', PStr job_id),
           (''container_name'', PStr container_name),
           (''phases'', PJson (PList (map PInt phases))),
           (''priority'', PStr priority),
           (''status'', PStr ''pending''),
           (''created_at'', PIso now),
           (''total_files'', PInt 0),
           (''processed_files'', PInt 0),
           (''failed_files'', PInt 0),
           (''current_phase'', PNone),
           (''progress_percentage'', PFloat 0)] db)
       (\<lambda>u db1. and_then (lpush now jobs_list_key (PStr job_id) db1)
          (\<lambda>u db2. (Inr (), expire now (job_key job_id) 604800 db2)))"

text \<open>
  \<^verbatim>\<open>get_job\<close>: \<^verbatim>\<open>None\<close> for an empty answer, otherwise the hash with \<^verbatim>\<open>phases\<close> parsed and
  the counters converted, each only when the field is there.
\<close>

definition convert_field ::
  "(pyval \<Rightarrow> error + pyval) \<Rightarrow> string \<Rightarrow> pydict \<Rightarrow> error + pydict"
where
  "convert_field conv f d =
     (case d f of
        None \<Rightarrow> Inr d
      | Some t \<Rightarrow> (case conv t of Inl e \<Rightarrow> Inl e | Inr v \<Rightarrow> Inr (d(f \<mapsto> v))))"

definition loads_or_raise :: "pyval \<Rightarrow> error + pyval" where
  "loads_or_raise t =
     (case json_loads t of None \<Rightarrow> Inl (ValueError ''JSONDecodeError'') | Some v \<Rightarrow> Inr v)"

definition then_convert ::
  "error + pydict \<Rightarrow> (pyval \<Rightarrow> error + pyval) \<Rightarrow> string \<Rightarrow> error + pydict"
where
  "then_convert m conv f = (case m of Inl e \<Rightarrow> Inl e | Inr d \<Rightarrow> convert_field conv f d)"

definition get_job :: "nat \<Rightarrow> string \<Rightarrow> redis \<Rightarrow> error + pydict option" where
  "get_job now job_id db =
     (case hgetall now (job_key job_id) db of
        Inl e \<Rightarrow> Inl e
      | Inr job_data \<Rightarrow>
          if job_data = Map.empty then Inr None
          else
            (case then_convert
                    (then_convert
                       (then_convert
                          (then_convert (convert_field loads_or_raise ''phases'' job_data)
                             py_int ''total_files'')
                          py_int ''processed_files'')
                       py_int ''failed_files'')
                    py_float ''progress_percentage'' of
               Inl e \<Rightarrow> Inl e
             | Inr job \<Rightarrow> Inr (Some job)))"

text \<open>
  The block that ends both \<^verbatim>\<open>update_job\<close> and \<^verbatim>\<open>increment_processed\<close>: read the job back
  and, when \<^verbatim>\<open>job['total_files'] > 0\<close>, store
  \<^verbatim>\<open>(job['processed_files'] / job['total_files']) * 100\<close>.  A subscript on a missing
  field is a \<^verbatim>\<open>KeyError\<close>.  The value written here is the exact one; the program's
  double is the same whenever the exact value is a double, as for whole percentages.
\<close>

definition update_progress :: "nat \<Rightarrow> string \<Rightarrow> redis \<Rightarrow> (error + unit) \<times> redis" where
  "update_progress now job_id db =
     (case get_job now job_id db of
        Inl e \<Rightarrow> (Inl e, db)
      | Inr None \<Rightarrow> (Inr (), db)
      | Inr (Some job) \<Rightarrow>
          (case job ''total_files'' of
             None \<Rightarrow> (Inl (KeyError ''total_files''), db)
           | Some (PInt total_files) \<Rightarrow>
               if total_files > 0 then
                 (case job ''processed_files'' of
                    None \<Rightarrow> (Inl (KeyError ''processed_files''), db)
                  | Some (PInt processed_files) \<Rightarrow>
                      hset now (job_key job_id)
                        [(''progress_percentage'',
                          PFloat (of_int processed_files / of_int total_files * 100))] db
                  | Some other \<Rightarrow> (Inl (TypeError ''unsupported operand type(s) for /''), db))
               else (Inr (), db)
           | Some other \<Rightarrow> (Inl (TypeError ''not supported between instances''), db)))"

text \<open>
  \<^verbatim>\<open>update_job\<close> first rewrites the patch: a \<^verbatim>\<open>datetime\<close> becomes its ISO text, a list or a
  dictionary its JSON text.  Then it writes every field of the patch, whatever the
  stored record holds, and refreshes the progress.
\<close>

definition serialize_value :: "pyval \<Rightarrow> error + pyval" where
  "serialize_value v =
     (case v of
        PDatetime t \<Rightarrow> Inr (PIso t)
      | PList xs \<Rightarrow> json_dumps v
      | PDict kvs \<Rightarrow> json_dumps v
      | _ \<Rightarrow> Inr v)"

fun serialize_updates :: "(string \<times> pyval) list \<Rightarrow> error + (string \<times> pyval) list" where
  "serialize_updates [] = Inr []"
| "serialize_updates ((f, v) # rest) =
     (case serialize_value v of
        Inl e \<Rightarrow> Inl e
      | Inr t \<Rightarrow>
          (case serialize_updates rest of
             Inl e \<Rightarrow> Inl e
           | Inr ts \<Rightarrow> Inr ((f, t) # ts)))"

definition update_job ::
  "nat \<Rightarrow> string \<Rightarrow> (string \<times> pyval) list \<Rightarrow> redis \<Rightarrow> (error + unit) \<times> redis"
where
  "update_job now job_id updates db =
     (case serialize_updates updates of
        Inl e \<Rightarrow> (Inl e, db)
      | Inr ts \<Rightarrow>
          and_then (hset now (job_key job_id) ts db)
            (\<lambda>u db1. update_progress now job_id db1))"

definition add_file_result ::
  "nat \<Rightarrow> string \<Rightarrow> string \<Rightarrow> pyval \<Rightarrow> redis \<Rightarrow> (error + unit) \<times> redis"
where
  "add_file_result now job_id phase result db =
     (case json_dumps result of
        Inl e \<Rightarrow> (Inl e, db)
      | Inr result_json \<Rightarrow> rpush now (phase_key job_id phase) result_json db)"

text \<open>\<^verbatim>\<open>get_phase_results\<close>: an entry that does not parse is logged and left out.\<close>

definition get_phase_results :: "nat \<Rightarrow> string \<Rightarrow> string \<Rightarrow> redis \<Rightarrow> error + pyval list" where
  "get_phase_results now job_id phase db =
     (case lrange now (phase_key job_id phase) 0 (- 1) db of
        Inl e \<Rightarrow> Inl e
      | Inr results_json \<Rightarrow> Inr (List.map_filter json_loads results_json))"

definition increment_processed :: "nat \<Rightarrow> string \<Rightarrow> redis \<Rightarrow> (error + unit) \<times> redis" where
  "increment_processed now job_id db =
     and_then (hincrby now (job_key job_id) ''processed_files'' 1 db)
       (\<lambda>u db1. update_progress now job_id db1)"

definition increment_failed :: "nat \<Rightarrow> string \<Rightarrow> redis \<Rightarrow> (error + unit) \<times> redis" where
  "increment_failed now job_id db =
     and_then (hincrby now (job_key job_id) ''failed_files'' 1 db)
       (\<lambda>u db1. increment_processed now job_id db1)"

definition terminal_statuses :: "pyval list" where
  "terminal_statuses = [PStr ''completed'', PStr ''failed'', PStr ''cancelled'']"

definition cancel_job :: "nat \<Rightarrow> string \<Rightarrow> redis \<Rightarrow> (error + bool) \<times> redis" where
  "cancel_job now job_id db =
     (case get_job now job_id db of
        Inl e \<Rightarrow> (Inl e, db)
      | Inr None \<Rightarrow> (Inr False, db)
      | Inr (Some job) \<Rightarrow>
          (case job ''status'' of
             None \<Rightarrow> (Inl (KeyError ''status''), db)
           | Some st \<Rightarrow>
               if st \<in> set terminal_statuses then (Inr False, db)
               else
                 and_then
                   (update_job now job_id
                      [(''status'', PStr ''cancelled''), (''cancelled_at'', PDatetime now)] db)
                   (\<lambda>u db1. (Inr True, db1))))"

text \<open>
  \<^verbatim>\<open>list_jobs\<close>: the first \<^verbatim>\<open>limit\<close> identifiers of \<^verbatim>\<open>jobs:list\<close>, each read with \<^verbatim>\<open>get_job\<close>;
  an identifier whose record is gone is left out.
\<close>

fun collect_jobs :: "nat \<Rightarrow> redis \<Rightarrow> pyval list \<Rightarrow> error + pydict list" where
  "collect_jobs now db [] = Inr []"
| "collect_jobs now db (j # js) =
     (case j of
        PStr job_id \<Rightarrow>
          (case get_job now job_id db of
             Inl e \<Rightarrow> Inl e
           | Inr None \<Rightarrow> collect_jobs now db js
           | Inr (Some job) \<Rightarrow>
               (case collect_jobs now db js of
                  Inl e \<Rightarrow> Inl e
                | Inr jobs \<Rightarrow> Inr (job # jobs)))
      | _ \<Rightarrow> Inl (TypeError ''can only concatenate str''))"

definition list_jobs :: "nat \<Rightarrow> int \<Rightarrow> redis \<Rightarrow> error + pydict list" where
  "list_jobs now limit db =
     (case lrange now jobs_list_key 0 (limit - 1) db of
        Inl e \<Rightarrow> Inl e
      | Inr job_ids \<Rightarrow> collect_jobs now db job_ids)"

definition delete_job :: "nat \<Rightarrow> string \<Rightarrow> redis \<Rightarrow> (error + unit) \<times> redis" where
  "delete_job now job_id db =
     lrem_all now jobs_list_key (PStr job_id)
       (delete_key (phase_key job_id ''phase3'')
          (delete_key (phase_key job_id ''phase2'')
             (delete_key (phase_key job_id ''phase1'')
                (delete_key (job_key job_id) db))))"

subsection \<open>The cancel endpoint (app.py)\<close>

text \<open>
  \<^verbatim>\<open>DELETE /api/jobs/{job_id}\<close>: 404 when \<^verbatim>\<open>cancel_job\<close> answers false, 500 when it raises,
  200 with a message otherwise.
\<close>

definition cancel_job_endpoint :: "nat \<Rightarrow> string \<Rightarrow> redis \<Rightarrow> nat \<times> redis" where
  "cancel_job_endpoint now job_id db =
     (case cancel_job now job_id db of
        (Inl e, db1) \<Rightarrow> (500, db1)
      | (Inr success, db1) \<Rightarrow> if \<not> success then (404, db1) else (200, db1))"

section \<open>Notions used in the statements\<close>

text \<open>
  A job record as \<^verbatim>\<open>create_job\<close> lays it out and the phases keep it: a status, the three
  counters as integers, \<^verbatim>\<open>phases\<close> as JSON text, the progress as a number.  Fields are
  only ever added or overwritten, so a record that was created keeps this shape as long
  as the patches keep the counters integers.
\<close>

definition is_int :: "pyval option \<Rightarrow> bool" where
  "is_int x = (case x of Some (PInt i) \<Rightarrow> True | _ \<Rightarrow> False)"

definition job_record :: "pydict \<Rightarrow> bool" where
  "job_record h =
     (h ''status'' \<noteq> None \<and> is_int (h ''total_files'') \<and> is_int (h ''processed_files'')
      \<and> is_int (h ''failed_files'')
      \<and> (case h ''phases'' of None \<Rightarrow> True | Some t \<Rightarrow> json_loads t \<noteq> None)
      \<and> (case h ''progress_percentage'' of None \<Rightarrow> True | Some (PInt i) \<Rightarrow> True
          | Some (PFloat q) \<Rightarrow> True | Some other \<Rightarrow> False))"

text \<open>The hash stored for a job, if there is one that has not expired.\<close>

definition stored_job :: "nat \<Rightarrow> redis \<Rightarrow> string \<Rightarrow> pydict option" where
  "stored_job now db job_id =
     (case lookup now db (job_key job_id) of Some (RHash h) \<Rightarrow> Some h | _ \<Rightarrow> None)"

text \<open>The job exists and its status is none of completed, failed, cancelled.\<close>

definition cancellable :: "nat \<Rightarrow> redis \<Rightarrow> string \<Rightarrow> bool" where
  "cancellable now db job_id =
     (case stored_job now db job_id of
        None \<Rightarrow> False
      | Some h \<Rightarrow>
          (case h ''status'' of None \<Rightarrow> False | Some st \<Rightarrow> st \<notin> set terminal_statuses))"

text \<open>Under the job's key there is nothing, or a job record.\<close>

definition well_formed_store :: "nat \<Rightarrow> redis \<Rightarrow> string \<Rightarrow> bool" where
  "well_formed_store now db job_id =
     (case lookup now db (job_key job_id) of
        None \<Rightarrow> True
      | Some (RHash h) \<Rightarrow> job_record h
      | Some (RList xs) \<Rightarrow> False)"

definition empty_redis :: redis where
  "empty_redis = \<lparr>kv = Map.empty, expires = Map.empty\<rparr>"

text \<open>
  A store that holds the record of one job, \<^verbatim>\<open>j1\<close>, pending, with the fields and the
  initial values \<^verbatim>\<open>create_job\<close> lists other than \<^verbatim>\<open>current_phase\<close> (whose value \<^verbatim>\<open>None\<close> cannot
  be stored), the identifier in \<^verbatim>\<open>jobs:list\<close>, and a time to live on the record that ends
  at 605800.  The same store after the job was cancelled at time 2000.
\<close>

definition job1_record :: pydict where
  "job1_record =
     [''job_id'' \<mapsto> PStr ''j1'',
      ''container_name'' \<mapsto> PStr ''test-files'',
      ''phases'' \<mapsto> PJson (PList [PInt 1, PInt 2, PInt 3]),
      ''priority'' \<mapsto> PStr ''normal'',
      ''status'' \<mapsto> PStr ''pending'',
      ''created_at'' \<mapsto> PIso 1000,
      ''total_files'' \<mapsto> PInt 0,
      ''processed_files'' \<mapsto> PInt 0,
      ''failed_files'' \<mapsto> PInt 0,
      ''progress_percentage'' \<mapsto> PFloat 0]"

definition job1 :: redis where
  "job1 =
     \<lparr>kv = [''jobs:list'' \<mapsto> RList [PStr ''j1''], ''job:j1'' \<mapsto> RHash job1_record],
      expires = [''job:j1'' \<mapsto> 605800]\<rparr>"

definition job1_cancelled :: redis where
  "job1_cancelled = snd (cancel_job 2000 ''j1'' job1)"

text \<open>
  Several results appended one after the other, each at its own time, and the list a key
  holds (the empty list for a key that is absent, nothing for a key that holds a hash).
\<close>

fun add_file_results ::
  "string \<Rightarrow> string \<Rightarrow> (nat \<times> pyval) list \<Rightarrow> redis \<Rightarrow> (error + unit) \<times> redis"
where
  "add_file_results job_id phase [] db = (Inr (), db)"
| "add_file_results job_id phase ((t, r) # rest) db =
     and_then (add_file_result t job_id phase r db)
       (\<lambda>u db1. add_file_results job_id phase rest db1)"

definition stored_list :: "redis \<Rightarrow> string \<Rightarrow> pyval list option" where
  "stored_list db k =
     (case kv db k of None \<Rightarrow> Some [] | Some (RList xs) \<Rightarrow> Some xs | Some (RHash h) \<Rightarrow> None)"


text \<open>The store \<open>job1\<close> after one Phase-1 result was appended at time 1500.\<close>

definition job1_with_result :: redis where
  "job1_with_result =
     snd (add_file_result 1500 ''j1'' ''phase1''
            (PDict [(''file_path'', PStr ''a.pdf''), (''status'', PStr ''success'')]) job1)"

text \<open>
  A pool that tracks one Sophos VM, handed out for the third time, under a configuration
  that recycles after three uses, with a backend on which every call succeeds.
\<close>

definition used_up_vm :: VMInfo where
  "used_up_vm =
     \<lparr>vm_name = ''edr-test-sophos-00-1700000000'', resource_group = ''rg'',
      edr_solution = ''sophos'', status = ''in_use'', public_ip = ''20.0.0.4'',
      private_ip = ''10.0.0.4'', created_at = 1700000000, last_used_at = Some 1700005000,
      use_count = 3\<rparr>"

definition used_up_pool :: pool_state where
  "used_up_pool =
     init_pool\<lparr>heap := [0 \<mapsto> used_up_vm], next_ref := 1,
               all_vms := [''edr-test-sophos-00-1700000000'' \<mapsto> 0]\<rparr>"

definition used_up_dict :: vm_dict where
  "used_up_dict =
     \<lparr>d_vm_name = ''edr-test-sophos-00-1700000000'', d_resource_group = ''rg'',
      d_public_ip = ''20.0.0.4'', d_private_ip = ''10.0.0.4'', d_edr_solution = ''sophos''\<rparr>"

definition three_uses :: pool_config where
  "three_uses =
     \<lparr>max_vm_uses = 3, base_images = [''sophos'' \<mapsto> ''/images/sophos''],
      azure_resource_group = ''rg''\<rparr>"

definition azure_ok :: azure where
  "azure_ok =
     \<lparr>az_create = (\<lambda>n. Some (''20.0.0.5'', ''10.0.0.5'')), az_delete = (\<lambda>n. True),
      az_cleanup = (\<lambda>n. True), az_execute = (\<lambda>n. Some None)\<rparr>"

section \<open>Phase runners\<close>

subsection \<open>Dictionaries and collaborators\<close>

text \<open>
  The dictionaries the tasks build are association lists in insertion order:
  \<^verbatim>\<open>d[k] = v\<close> replaces in place or appends, \<^verbatim>\<open>d.update(u)\<close> does so for every pair of \<open>u\<close>,
  \<^verbatim>\<open>d.get(k)\<close> is \<^verbatim>\<open>None\<close> for a missing key.
\<close>

type_synonym dict = "(string \<times> pyval) list"

fun dict_set :: "string \<Rightarrow> pyval \<Rightarrow> dict \<Rightarrow> dict" where
  "dict_set k v [] = [(k, v)]"
| "dict_set k v ((k', v') # d) = (if k = k' then (k, v) # d else (k', v') # dict_set k v d)"

definition dict_update :: "dict \<Rightarrow> dict \<Rightarrow> dict" where
  "dict_update d u = fold (\<lambda>(k, v) d'. dict_set k v d') u d"

definition dict_get :: "dict \<Rightarrow> string \<Rightarrow> pyval" where
  "dict_get d k = (case map_of d k of None \<Rightarrow> PNone | Some v \<Rightarrow> v)"

text \<open>\<^verbatim>\<open>job.get(k)\<close> on the dictionary \<^verbatim>\<open>get_job\<close> returns.\<close>

definition job_get :: "pydict \<Rightarrow> string \<Rightarrow> pyval" where
  "job_get job k = (case job k of None \<Rightarrow> PNone | Some v \<Rightarrow> v)"

text \<open>A parsed result is used as a dictionary; \<^verbatim>\<open>.get\<close> on anything else is an error.\<close>

definition as_dict :: "pyval \<Rightarrow> error + dict" where
  "as_dict v = (case v of PDict d \<Rightarrow> Inr d | _ \<Rightarrow> Inl (AttributeError (type_name v) ''get''))"

fun all_dicts :: "pyval list \<Rightarrow> error + dict list" where
  "all_dicts [] = Inr []"
| "all_dicts (v # vs) =
     (case as_dict v of
        Inl e \<Rightarrow> Inl e
      | Inr d \<Rightarrow> (case all_dicts vs of Inl e \<Rightarrow> Inl e | Inr ds \<Rightarrow> Inr (d # ds)))"

text \<open>Truth value of a Python value, and whether it can be a member of a \<^verbatim>\<open>set\<close>.\<close>

definition truthy :: "pyval \<Rightarrow> bool" where
  "truthy v =
     (case v of
        PNone \<Rightarrow> False | PBool b \<Rightarrow> b | PInt i \<Rightarrow> i \<noteq> 0 | PFloat q \<Rightarrow> q \<noteq> 0
      | PStr s \<Rightarrow> s \<noteq> [] | PList xs \<Rightarrow> xs \<noteq> [] | PDict d \<Rightarrow> d \<noteq> [] | _ \<Rightarrow> True)"

definition hashable :: "pyval \<Rightarrow> bool" where
  "hashable v = (case v of PList xs \<Rightarrow> False | PDict d \<Rightarrow> False | _ \<Rightarrow> True)"

text \<open>\<^verbatim>\<open>str(e)\<close> for an exception.\<close>

definition str_of_error :: "error \<Rightarrow> string" where
  "str_of_error e =
     (case e of
        KeyError k \<Rightarrow> quoted k
      | NameError n \<Rightarrow> ''name '' @ quoted n @ '' is not defined''
      | AttributeError t a \<Rightarrow> quoted t @ '' object has no attribute '' @ quoted a
      | ValueError m \<Rightarrow> m | TimeoutError m \<Rightarrow> m | TypeError m \<Rightarrow> m
      | BackendError m \<Rightarrow> m | DataError m \<Rightarrow> m | ResponseError m \<Rightarrow> m)"

text \<open>
  The blob store, seen through the three calls the tasks make; each may raise.
\<close>

record blob_manager =
  list_files :: "string \<Rightarrow> error + string list"
  download_file :: "string \<Rightarrow> string \<Rightarrow> error + string"
  upload_file :: "string \<Rightarrow> string \<Rightarrow> string \<Rightarrow> error + unit"

text \<open>
  The handler that ends the three batch tasks: mark the job failed with the message,
  then re-raise.  An exception inside the handler replaces the one being handled.
\<close>

definition fail_job :: "nat \<Rightarrow> string \<Rightarrow> error \<Rightarrow> redis \<Rightarrow> (error + 'a) \<times> redis" where
  "fail_job now job_id e db =
     (case update_job now job_id
             [(''status'', PStr ''failed''), (''error'', PStr (str_of_error e))] db of
        (Inl e2, db1) \<Rightarrow> (Inl e2, db1)
      | (Inr u, db1) \<Rightarrow> (Inl e, db1))"

subsection \<open>Phase 1 (tasks/phase1\_cdr.py)\<close>

text \<open>The keys of \<^verbatim>\<open>cdr_engines\<close>, in the order of the dictionary.\<close>

definition cdr_engines :: "string list" where
  "cdr_engines = [''glasswall'', ''opswat'', ''votiro'']"

text \<open>What the task reads from the object \<^verbatim>\<open>sanitize_file\<close> returns.\<close>

record cdr_result =
  success :: bool
  sanitized_file_path :: string
  processing_time_ms :: pyval
  original_size :: pyval
  sanitized_size :: pyval
  threats_found :: pyval
  error_message :: pyval

text \<open>The signature \<^verbatim>\<open>process_single_file_cdr.s(...)\<close> of one unit.\<close>

record cdr_task =
  cdr_job_id :: string
  cdr_container_name :: string
  cdr_file_path :: string
  cdr_engine_name :: string

definition cdr_tasks :: "string \<Rightarrow> string \<Rightarrow> string list \<Rightarrow> cdr_task list" where
  "cdr_tasks job_id container_name file_paths =
     concat (map (\<lambda>file_path.
               map (\<lambda>engine_name.
                      \<lparr>cdr_job_id = job_id, cdr_container_name = container_name,
                       cdr_file_path = file_path, cdr_engine_name = engine_name\<rparr>)
                   cdr_engines)
             file_paths)"

text \<open>
  \<^verbatim>\<open>process_cdr_batch\<close>: the job becomes running, the files are listed when none were
  given, \<^verbatim>\<open>total_files\<close> is set to the number of files, and one unit per file and engine
  is dispatched.
\<close>

definition process_cdr_batch ::
  "blob_manager \<Rightarrow> nat \<Rightarrow> string \<Rightarrow> string \<Rightarrow> string list option \<Rightarrow> redis
     \<Rightarrow> (error + cdr_task list) \<times> redis"
where
  "process_cdr_batch blob now job_id container_name file_paths db =
     (case update_job now job_id
             [(''status'', PStr ''running''), (''current_phase'', PInt 1),
              (''started_at'', PDatetime now)] db of
        (Inl e, db1) \<Rightarrow> fail_job now job_id e db1
      | (Inr u, db1) \<Rightarrow>
          (case (case file_paths of
                   None \<Rightarrow> list_files blob container_name
                 | Some given \<Rightarrow> Inr given) of
             Inl e \<Rightarrow> fail_job now job_id e db1
           | Inr paths \<Rightarrow>
               (case update_job now job_id
                       [(''total_files'', PInt (int (length paths)))] db1 of
                  (Inl e, db2) \<Rightarrow> fail_job now job_id e db2
                | (Inr u, db2) \<Rightarrow> (Inr (cdr_tasks job_id container_name paths), db2))))"

text \<open>
  The body of the \<^verbatim>\<open>try\<close> in \<^verbatim>\<open>process_single_file_cdr\<close> up to the point where the result
  is stored: the exception raised, or the result dictionary after its update.
\<close>

definition cdr_outcome ::
  "blob_manager \<Rightarrow> (string \<Rightarrow> string \<Rightarrow> error + cdr_result) \<Rightarrow> nat \<Rightarrow> cdr_task \<Rightarrow> dict
     \<Rightarrow> error + dict"
where
  "cdr_outcome blob sanitize_file now task result =
     (case download_file blob (cdr_container_name task) (cdr_file_path task) of
        Inl e \<Rightarrow> Inl e
      | Inr local_file_path \<Rightarrow>
          if cdr_engine_name task \<notin> set cdr_engines
          then Inl (ValueError (''Unknown CDR engine: '' @ cdr_engine_name task))
          else
            (case sanitize_file (cdr_engine_name task) local_file_path of
               Inl e \<Rightarrow> Inl e
             | Inr r \<Rightarrow>
                 if success r then
                   (let sanitized_blob_path =
                          ''post-cdr/'' @ cdr_engine_name task @ ''/'' @ cdr_file_path task in
                    case upload_file blob (cdr_container_name task) (sanitized_file_path r)
                           sanitized_blob_path of
                      Inl e \<Rightarrow> Inl e
                    | Inr u \<Rightarrow>
                        Inr (dict_update result
                               [(''status'', PStr ''success''),
                                (''sanitized_blob_path'', PStr sanitized_blob_path),
                                (''processing_time_ms'', processing_time_ms r),
                                (''file_size_before'', original_size r),
                                (''file_size_after'', sanitized_size r),
                                (''threats_found'', threats_found r),
                                (''end_time'', PIso now)]))
                 else
                   Inr (dict_update result
                          [(''status'', PStr ''failed''),
                           (''error'', error_message r),
                           (''end_time'', PIso now)])))"

text \<open>
  \<^verbatim>\<open>process_single_file_cdr\<close>.  On the normal path the result is appended to the Phase-1
  list and \<^verbatim>\<open>processed_files\<close> is incremented.  Any exception of the \<^verbatim>\<open>try\<close> body,
  including one raised while storing, leads to the handler: the result becomes an
  error, is appended, and \<^verbatim>\<open>increment_failed\<close> is called.
\<close>

definition process_single_file_cdr ::
  "blob_manager \<Rightarrow> (string \<Rightarrow> string \<Rightarrow> error + cdr_result) \<Rightarrow> nat \<Rightarrow> cdr_task \<Rightarrow> redis
     \<Rightarrow> (error + dict) \<times> redis"
where
  "process_single_file_cdr blob sanitize_file now task db =
     (let job_id = cdr_job_id task;
          result = [(''job_id'', PStr job_id),
                    (''file_path'', PStr (cdr_file_path task)),
                    (''engine_name'', PStr (cdr_engine_name task)),
                    (''status'', PStr ''pending''),
                    (''start_time'', PIso now)];
          handler = (\<lambda>e res db'.
             (let res' = dict_update res
                           [(''status'', PStr ''error''), (''error'', PStr (str_of_error e)),
                            (''end_time'', PIso now)]
              in and_then (add_file_result now job_id ''phase1'' (PDict res') db')
                   (\<lambda>u db1. and_then (increment_failed now job_id db1)
                      (\<lambda>u db2. (Inr res', db2)))))
      in case cdr_outcome blob sanitize_file now task result of
           Inl e \<Rightarrow> handler e result db
         | Inr res \<Rightarrow>
             (case add_file_result now job_id ''phase1'' (PDict res) db of
                (Inl e, db1) \<Rightarrow> handler e res db1
              | (Inr u, db1) \<Rightarrow>
                  (case increment_processed now job_id db1 of
                     (Inl e, db2) \<Rightarrow> handler e res db2
                   | (Inr u, db2) \<Rightarrow> (Inr res, db2))))"

text \<open>The units of a batch run one after the other, each at its own time.\<close>

fun run_cdr_units ::
  "blob_manager \<Rightarrow> (string \<Rightarrow> string \<Rightarrow> error + cdr_result) \<Rightarrow> (nat \<times> cdr_task) list \<Rightarrow> redis
     \<Rightarrow> (error + dict list) \<times> redis"
where
  "run_cdr_units blob sanitize_file [] db = (Inr [], db)"
| "run_cdr_units blob sanitize_file ((t, task) # rest) db =
     and_then (process_single_file_cdr blob sanitize_file t task db)
       (\<lambda>r db1. and_then (run_cdr_units blob sanitize_file rest db1)
          (\<lambda>rs db2. (Inr (r # rs), db2)))"

text \<open>
  A run of Phase 1 on the store \<open>job1\<close> with the single file \<^verbatim>\<open>a.pdf\<close>: a blob store and
  CDR engines on which every call succeeds, the batch task at time 1100, then the three
  units it dispatched.
\<close>

definition blob_ok :: blob_manager where
  "blob_ok =
     \<lparr>list_files = (\<lambda>c. Inr [''a.pdf'']),
      download_file = (\<lambda>c p. Inr (''/tmp/'' @ p)),
      upload_file = (\<lambda>c l p. Inr ())\<rparr>"

definition sanitize_ok :: "string \<Rightarrow> string \<Rightarrow> error + cdr_result" where
  "sanitize_ok engine local =
     Inr \<lparr>success = True, sanitized_file_path = local @ ''.clean'',
          processing_time_ms = PInt 120, original_size = PInt 2048,
          sanitized_size = PInt 1900, threats_found = PInt 1, error_message = PNone\<rparr>"

definition one_file_batch :: "(error + cdr_task list) \<times> redis" where
  "one_file_batch = process_cdr_batch blob_ok 1100 ''j1'' ''test-files'' (Some [''a.pdf'']) job1"

definition one_file_done :: "(error + dict list) \<times> redis" where
  "one_file_done =
     run_cdr_units blob_ok sanitize_ok
       [(1200, \<lparr>cdr_job_id = ''j1'', cdr_container_name = ''test-files'',
                cdr_file_path = ''a.pdf'', cdr_engine_name = ''glasswall''\<rparr>),
        (1300, \<lparr>cdr_job_id = ''j1'', cdr_container_name = ''test-files'',
                cdr_file_path = ''a.pdf'', cdr_engine_name = ''opswat''\<rparr>),
        (1400, \<lparr>cdr_job_id = ''j1'', cdr_container_name = ''test-files'',
                cdr_file_path = ''a.pdf'', cdr_engine_name = ''votiro''\<rparr>)]
       (snd one_file_batch)"

subsection \<open>Phase 2 (tasks/phase2\_av.py)\<close>

text \<open>The keys of \<^verbatim>\<open>av_engines\<close>, and the signature of one scan unit.\<close>

definition av_engines :: "string list" where
  "av_engines = [''opswat'', ''reversinglabs'']"

record scan_task =
  scan_job_id :: string
  scan_container_name :: pyval
  scan_file_info :: dict
  scan_engine_name :: string

text \<open>
  The planning loop of \<^verbatim>\<open>scan_av_batch\<close> (the same lines plan Phase 3).  \<^verbatim>\<open>original_files\<close>
  is the set of the \<^verbatim>\<open>file_path\<close> values of the successful Phase-1 results.  For each
  member, in the order in which the set is iterated, the plan holds the entry of the
  original file followed by one entry per successful result of that file, in the order
  of the results.  Values are compared by structure; file paths are texts.
\<close>

definition successful :: "dict \<Rightarrow> bool" where
  "successful r = (dict_get r ''status'' = PStr ''success'')"

definition original_files :: "dict list \<Rightarrow> pyval set" where
  "original_files phase1_results =
     set (map (\<lambda>r. dict_get r ''file_path'') (filter successful phase1_results))"

definition pre_cdr_entry :: "pyval \<Rightarrow> dict" where
  "pre_cdr_entry original_file =
     [(''file_path'', original_file), (''version'', PStr ''pre-cdr''), (''cdr_engine'', PNone)]"

definition post_cdr_entry :: "pyval \<Rightarrow> dict \<Rightarrow> dict" where
  "post_cdr_entry original_file r =
     [(''file_path'', dict_get r ''sanitized_blob_path''), (''version'', PStr ''post-cdr''),
      (''cdr_engine'', dict_get r ''engine_name''), (''original_file'', original_file)]"

definition planned_files :: "pyval list \<Rightarrow> dict list \<Rightarrow> dict list" where
  "planned_files order phase1_results =
     concat (map (\<lambda>original_file.
               pre_cdr_entry original_file #
               map (post_cdr_entry original_file)
                 (filter (\<lambda>r. dict_get r ''file_path'' = original_file \<and> successful r)
                    phase1_results))
             order)"

definition scan_tasks :: "string \<Rightarrow> pyval \<Rightarrow> dict list \<Rightarrow> scan_task list" where
  "scan_tasks job_id container_name files_to_scan =
     concat (map (\<lambda>file_info.
               map (\<lambda>av_engine_name.
                      \<lparr>scan_job_id = job_id, scan_container_name = container_name,
                       scan_file_info = file_info, scan_engine_name = av_engine_name\<rparr>)
                   av_engines)
             files_to_scan)"

definition is_str :: "pyval \<Rightarrow> bool" where
  "is_str v = (case v of PStr s \<Rightarrow> True | _ \<Rightarrow> False)"

text \<open>
  \<^verbatim>\<open>scan_av_batch\<close>.  Python does not fix the order in which a set is iterated:
  \<open>iter_order\<close> gives the members in the order of this run.  Adding an unhashable value
  to the set is a \<^verbatim>\<open>TypeError\<close>.  Any exception marks the job failed and is raised again.
\<close>

definition scan_av_batch ::
  "(pyval set \<Rightarrow> pyval list) \<Rightarrow> nat \<Rightarrow> string \<Rightarrow> redis \<Rightarrow> (error + scan_task list) \<times> redis"
where
  "scan_av_batch iter_order now job_id db =
     (case update_job now job_id
             [(''current_phase'', PInt 2), (''phase2_started_at'', PDatetime now)] db of
        (Inl e, db1) \<Rightarrow> fail_job now job_id e db1
      | (Inr u, db1) \<Rightarrow>
          (case get_job now job_id db1 of
             Inl e \<Rightarrow> fail_job now job_id e db1
           | Inr None \<Rightarrow> fail_job now job_id (AttributeError ''NoneType'' ''get'') db1
           | Inr (Some job) \<Rightarrow>
               (case get_phase_results now job_id ''phase1'' db1 of
                  Inl e \<Rightarrow> fail_job now job_id e db1
                | Inr parsed \<Rightarrow>
                    (case all_dicts parsed of
                       Inl e \<Rightarrow> fail_job now job_id e db1
                     | Inr phase1_results \<Rightarrow>
                         if \<not> list_all hashable
                               (map (\<lambda>r. dict_get r ''file_path'')
                                  (filter successful phase1_results))
                         then fail_job now job_id (TypeError ''unhashable type: list or dict'') db1
                         else
                           (Inr (scan_tasks job_id (job_get job ''container_name'')
                                   (planned_files (iter_order (original_files phase1_results))
                                      phase1_results)),
                            db1)))))"

text \<open>
  Three Phase-1 results of job \<^verbatim>\<open>j1\<close>: \<^verbatim>\<open>a.pdf\<close> sanitised by two engines, \<^verbatim>\<open>b.docx\<close> failed;
  the store that holds them, and that store once Phase 2 has started at time 2000.
\<close>

definition result_a_glasswall :: dict where
  "result_a_glasswall =
     [(''job_id'', PStr ''j1''), (''file_path'', PStr ''a.pdf''),
      (''engine_name'', PStr ''glasswall''), (''status'', PStr ''success''),
      (''sanitized_blob_path'', PStr ''post-cdr/glasswall/a.pdf'')]"

definition result_a_opswat :: dict where
  "result_a_opswat =
     [(''job_id'', PStr ''j1''), (''file_path'', PStr ''a.pdf''),
      (''engine_name'', PStr ''opswat''), (''status'', PStr ''success''),
      (''sanitized_blob_path'', PStr ''post-cdr/opswat/a.pdf'')]"

definition result_b_failed :: dict where
  "result_b_failed =
     [(''job_id'', PStr ''j1''), (''file_path'', PStr ''b.docx''),
      (''engine_name'', PStr ''glasswall''), (''status'', PStr ''failed''),
      (''error'', PStr ''unsupported'')]"

definition phase1_store :: redis where
  "phase1_store =
     snd (add_file_results ''j1'' ''phase1''
            [(1200, PDict result_a_glasswall), (1300, PDict result_a_opswat),
             (1400, PDict result_b_failed)] job1)"

definition phase2_started :: redis where
  "phase2_started =
     snd (update_job 2000 ''j1''
            [(''current_phase'', PInt 2), (''phase2_started_at'', PDatetime 2000)] phase1_store)"

subsection \<open>Phase 3 (tasks/phase3\_edr.py)\<close>

text \<open>The keys of \<^verbatim>\<open>edr_clients\<close>, and \<^verbatim>\<open>max_retries=3\<close> of the task decorator.\<close>

definition edr_clients :: "string list" where
  "edr_clients = [''crowdstrike'', ''sentinelone'', ''sophos'']"

definition max_retries :: nat where
  "max_retries = 3"

text \<open>
  The names bound at module level in \<^verbatim>\<open>phase3_edr.py\<close>: what the \<^verbatim>\<open>import\<close> statements
  bring in (lines 7 to 21) and what the module defines.  A name used in a function body
  that is neither local nor in this list nor a builtin raises \<^verbatim>\<open>NameError\<close> when the
  expression is evaluated.
\<close>

definition phase3_globals :: "string list" where
  "phase3_globals =
     [''Task'', ''group'', ''chord'', ''List'', ''Dict'', ''Any'', ''logging'', ''datetime'',
      ''time'', ''celery_app'', ''JobManager'', ''VMPoolManager'', ''CrowdStrikeClient'',
      ''SentinelOneClient'', ''SophosClient'', ''FileExecutor'', ''AzureBlobManager'',
      ''ConfigManager'', ''logger'', ''config_manager'', ''blob_manager'', ''job_manager'',
      ''vm_pool_manager'', ''edr_clients'', ''file_executor'', ''test_edr_batch'',
      ''test_single_file_edr'', ''on_edr_batch_complete'', ''calculate_edr_effectiveness'']"

definition global_name :: "string \<Rightarrow> error + unit" where
  "global_name name = (if name \<in> set phase3_globals then Inr () else Inl (NameError name))"

text \<open>
  What one attempt of a unit meets outside the program: the blob store, the Azure
  backend and the pool configuration, the EDR console (\<^verbatim>\<open>get_alerts\<close> by client, host,
  start and end), the iteration order of a set, and the clock readings of the attempt.
\<close>

record edr_world =
  w_blob :: blob_manager
  w_azure :: azure
  w_config :: pool_config
  w_get_alerts :: "string \<Rightarrow> string \<Rightarrow> nat \<Rightarrow> nat \<Rightarrow> error + pyval list"
  w_iter_order :: "pyval set \<Rightarrow> pyval list"
  w_start :: nat
  w_exec_start :: nat
  w_exec_end :: nat
  w_finish :: nat

text \<open>
  The state Phase 3 works on: the VM pool, the job store, and the queries the EDR
  consoles have received (client, host, start, end).
\<close>

record phase3_state =
  pool :: pool_state
  store :: redis
  console_queries :: "(string \<times> string \<times> nat \<times> nat) list"

record edr_task =
  edr_job_id :: string
  edr_container_name :: string
  edr_file_info :: dict
  edr_solution_name :: string

text \<open>How one execution of the task ends: it returns, asks for a retry, or raises.\<close>

datatype attempt = Done dict | RetryRequested error | Raised error

text \<open>\<^verbatim>\<open>copy_file_to_vm\<close>: the remote path is built from the last segment of the local one.\<close>

definition copy_file_to_vm :: "vm_dict \<Rightarrow> string \<Rightarrow> string" where
  "copy_file_to_vm vm local_file_path =
     ''C:'' @ [CHR 0x5C] @ ''test-files'' @ [CHR 0x5C]
       @ rev (takeWhile (\<lambda>c. c \<noteq> CHR ''/'') (rev local_file_path))"

text \<open>\<^verbatim>\<open>execute_file_on_vm\<close>: one run command on the VM; its failure is an exception.\<close>

definition execute_file_on_vm ::
  "azure \<Rightarrow> vm_dict \<Rightarrow> string \<Rightarrow> pool_state \<Rightarrow> (error + dict) \<times> pool_state"
where
  "execute_file_on_vm az vm remote_file_path s =
     (case az_execute az (d_vm_name vm) of
        None \<Rightarrow> (Inl (BackendError (d_vm_name vm)), log_call (RunExecute (d_vm_name vm)) s)
      | Some out \<Rightarrow>
          (Inr [(''success'', PBool True),
                (''output'', case out of None \<Rightarrow> PNone | Some m \<Rightarrow> PStr m)],
           log_call (RunExecute (d_vm_name vm)) s))"

text \<open>
  The analysis of the alerts: their number, the number with severity high, the distinct
  truthy threat types, the first ten alerts, and whether there is any alert.
\<close>

definition summarize_alerts ::
  "(pyval set \<Rightarrow> pyval list) \<Rightarrow> nat \<Rightarrow> pyval list \<Rightarrow> dict \<Rightarrow> error + dict"
where
  "summarize_alerts iter_order finish alerts result =
     (case all_dicts alerts of
        Inl e \<Rightarrow> Inl e
      | Inr ds \<Rightarrow>
          (let alert_count = int (length alerts);
               high_severity_alerts =
                 int (length (filter (\<lambda>a. dict_get a ''severity'' = PStr ''high'') ds));
               types = filter truthy (map (\<lambda>a. dict_get a ''threat_type'') ds)
           in if \<not> list_all hashable types then Inl (TypeError ''unhashable type: list or dict'')
              else
                Inr (dict_update result
                       [(''status'', PStr ''success''),
                        (''alert_count'', PInt alert_count),
                        (''high_severity_alerts'', PInt high_severity_alerts),
                        (''threat_types'', PList (iter_order (set types))),
                        (''alerts'', PList (take 10 alerts)),
                        (''edr_detected'', PBool (alert_count > 0)),
                        (''end_time'', PIso finish)])))"

text \<open>
  Steps 2 to 6 of \<^verbatim>\<open>test_single_file_edr\<close>, after the VM was acquired: download, copy,
  execute, wait, query, analyse.  The result is the exception raised or the updated
  result dictionary, together with the dictionary as it stood and the state.  The query
  is the call
  \<^verbatim>\<open>edr_client.get_alerts(host_name=vm['vm_name'], start_time=execution_start,
  end_time=execution_end + timedelta(seconds=60))\<close>: the callee and the arguments are
  evaluated before the call, and the last argument needs the name \<^verbatim>\<open>timedelta\<close>.
\<close>

definition edr_steps ::
  "edr_world \<Rightarrow> edr_task \<Rightarrow> pyval \<Rightarrow> vm_dict \<Rightarrow> dict \<Rightarrow> phase3_state
     \<Rightarrow> (error + dict) \<times> dict \<times> phase3_state"
where
  "edr_steps w task file_path vm result st =
     (case (case file_path of
              PStr p \<Rightarrow> download_file (w_blob w) (edr_container_name task) p
            | _ \<Rightarrow> Inl (TypeError ''blob_path must be str'')) of
        Inl e \<Rightarrow> (Inl e, result, st)
      | Inr local_file_path \<Rightarrow>
          (let remote_file_path = copy_file_to_vm vm local_file_path in
           case execute_file_on_vm (w_azure w) vm remote_file_path (pool st) of
             (Inl e, p1) \<Rightarrow> (Inl e, result, st\<lparr>pool := p1\<rparr>)
           | (Inr execution_result, p1) \<Rightarrow>
               (let st1 = st\<lparr>pool := p1\<rparr>;
                    result1 = dict_update result
                      [(''execution_started_at'', PIso (w_exec_start w)),
                       (''execution_ended_at'', PIso (w_exec_end w)),
                       (''execution_success'',
                        case map_of execution_result ''success'' of
                          None \<Rightarrow> PBool False | Some b \<Rightarrow> b)]
                in if edr_solution_name task \<notin> set edr_clients
                   then (Inl (AttributeError ''NoneType'' ''get_alerts''), result1, st1)
                   else
                     (case global_name ''timedelta'' of
                        Inl e \<Rightarrow> (Inl e, result1, st1)
                      | Inr u \<Rightarrow>
                          (let st2 = st1\<lparr>console_queries := console_queries st1 @
                                       [(edr_solution_name task, d_vm_name vm,
                                         w_exec_start w, w_exec_end w + 60)]\<rparr>
                           in case w_get_alerts w (edr_solution_name task) (d_vm_name vm)
                                     (w_exec_start w) (w_exec_end w + 60) of
                                Inl e \<Rightarrow> (Inl e, result1, st2)
                              | Inr alerts \<Rightarrow>
                                  (case summarize_alerts (w_iter_order w) (w_finish w)
                                          alerts result1 of
                                     Inl e \<Rightarrow> (Inl e, result1, st2)
                                   | Inr result2 \<Rightarrow> (Inr result2, result2, st2)))))))"

text \<open>
  The \<^verbatim>\<open>finally\<close> clause: a VM that was acquired is released with \<^verbatim>\<open>clean=True\<close>; an
  exception of the release is logged and dropped.
\<close>

definition edr_finally ::
  "edr_world \<Rightarrow> vm_dict option \<Rightarrow> attempt \<Rightarrow> phase3_state
     \<Rightarrow> (attempt \<times> thread list \<times> phase3_state) exec"
where
  "edr_finally w vm outcome st =
     (case vm of
        None \<Rightarrow> Returns (outcome, [], st)
      | Some v \<Rightarrow>
          (case release_vm (w_config w) (w_azure w) (w_finish w) v True (pool st) of
             Blocked b \<Rightarrow> Blocked b
           | Returns (err, threads, p) \<Rightarrow> Returns (outcome, threads, st\<lparr>pool := p\<rparr>)))"

text \<open>
  The \<^verbatim>\<open>except Exception\<close> clause: the result becomes an error and is appended to the
  Phase-3 list; then, while \<^verbatim>\<open>self.request.retries < self.max_retries\<close>, the task asks for
  a retry after 60 seconds, and otherwise returns the error result.
\<close>

definition edr_handler ::
  "edr_world \<Rightarrow> nat \<Rightarrow> edr_task \<Rightarrow> dict \<Rightarrow> error \<Rightarrow> vm_dict option \<Rightarrow> phase3_state
     \<Rightarrow> (attempt \<times> thread list \<times> phase3_state) exec"
where
  "edr_handler w retries task result e vm st =
     (let res = dict_update result
                  [(''status'', PStr ''error''), (''error'', PStr (str_of_error e)),
                   (''end_time'', PIso (w_finish w))]
      in case add_file_result (w_finish w) (edr_job_id task) ''phase3'' (PDict res) (store st) of
           (Inl e2, db) \<Rightarrow> edr_finally w vm (Raised e2) (st\<lparr>store := db\<rparr>)
         | (Inr u, db) \<Rightarrow>
             if retries < max_retries
             then edr_finally w vm (RetryRequested e) (st\<lparr>store := db\<rparr>)
             else edr_finally w vm (Done res) (st\<lparr>store := db\<rparr>))"

text \<open>\<^verbatim>\<open>test_single_file_edr\<close>, one execution, with \<^verbatim>\<open>self.request.retries = retries\<close>.\<close>

definition test_single_file_edr ::
  "edr_world \<Rightarrow> nat \<Rightarrow> edr_task \<Rightarrow> phase3_state \<Rightarrow> (attempt \<times> thread list \<times> phase3_state) exec"
where
  "test_single_file_edr w retries task st =
     (case map_of (edr_file_info task) ''file_path'' of
        None \<Rightarrow> Returns (Raised (KeyError ''file_path''), [], st)
      | Some file_path \<Rightarrow>
          (case map_of (edr_file_info task) ''version'' of
             None \<Rightarrow> Returns (Raised (KeyError ''version''), [], st)
           | Some version \<Rightarrow>
               (let result =
                      [(''job_id'', PStr (edr_job_id task)),
                       (''file_path'', file_path),
                       (''version'', version),
                       (''cdr_engine'', dict_get (edr_file_info task) ''cdr_engine''),
                       (''original_file'', dict_get (edr_file_info task) ''original_file''),
                       (''edr_solution_name'', PStr (edr_solution_name task)),
                       (''status'', PStr ''pending''),
                       (''start_time'', PIso (w_start w))]
                in case acquire_vm (w_start w) (edr_solution_name task) (pool st) of
                     Blocked b \<Rightarrow> Blocked b
                   | Returns (Inl e, p1) \<Rightarrow>
                       edr_handler w retries task result e None (st\<lparr>pool := p1\<rparr>)
                   | Returns (Inr vm, p1) \<Rightarrow>
                       (let result1 = dict_update result
                              [(''vm_name'', PStr (d_vm_name vm)),
                               (''vm_acquired_at'', PIso (w_start w))]
                        in case edr_steps w task file_path vm result1 (st\<lparr>pool := p1\<rparr>) of
                             (Inl e, res, st2) \<Rightarrow>
                               edr_handler w retries task res e (Some vm) st2
                           | (Inr res, res', st2) \<Rightarrow>
                               (case add_file_result (w_finish w) (edr_job_id task) ''phase3''
                                       (PDict res) (store st2) of
                                  (Inl e, db) \<Rightarrow>
                                    edr_handler w retries task res e (Some vm)
                                      (st2\<lparr>store := db\<rparr>)
                                | (Inr u, db) \<Rightarrow>
                                    edr_finally w (Some vm) (Done res)
                                      (st2\<lparr>store := db\<rparr>))))))"

text \<open>
  The cleaning threads a release started run to their end before the unit is executed
  again (the retry waits 60 seconds).
\<close>

fun run_threads :: "edr_world \<Rightarrow> thread list \<Rightarrow> pool_state \<Rightarrow> pool_state exec" where
  "run_threads w [] p = Returns p"
| "run_threads w (CleanAndReturn r # ts) p =
     (case clean_and_return_vm (w_config w) (w_azure w) (w_finish w) r p of
        Blocked b \<Rightarrow> Blocked b
      | Returns p1 \<Rightarrow> run_threads w ts p1)"

text \<open>
  A unit from dispatch to its end: the task is executed, and executed again with
  \<^verbatim>\<open>retries + 1\<close> each time it asks for a retry.  \<open>worlds n\<close> is what execution number
  \<open>n\<close> meets.
\<close>

function run_edr_unit ::
  "(nat \<Rightarrow> edr_world) \<Rightarrow> nat \<Rightarrow> edr_task \<Rightarrow> phase3_state \<Rightarrow> (attempt \<times> phase3_state) exec"
where
  "run_edr_unit worlds retries task st =
     (case test_single_file_edr (worlds retries) retries task st of
        Blocked b \<Rightarrow> Blocked b
      | Returns (outcome, threads, st1) \<Rightarrow>
          (case run_threads (worlds retries) threads (pool st1) of
             Blocked b \<Rightarrow> Blocked b
           | Returns p \<Rightarrow>
               (case outcome of
                  RetryRequested e \<Rightarrow>
                    if retries < max_retries
                    then run_edr_unit worlds (Suc retries) task (st1\<lparr>pool := p\<rparr>)
                    else Returns (Raised e, st1\<lparr>pool := p\<rparr>)
                | _ \<Rightarrow> Returns (outcome, st1\<lparr>pool := p\<rparr>))))"
  by pat_completeness auto
termination
  by (relation "measure (\<lambda>(worlds, retries, task, st). max_retries - retries)") auto

declare run_edr_unit.simps [simp del]

text \<open>
  A Phase-3 unit for the original file \<^verbatim>\<open>a.pdf\<close> on Sophos, a pool with one fresh Sophos
  VM, the store \<open>job1\<close>, and a world in which the blob store, the backend and the console
  answer every call (the console would report one high-severity alert).  Execution
  number \<open>n\<close> of the unit starts at time \<open>5000 + 1000 * n\<close>.
\<close>

definition fresh_vm :: VMInfo where
  "fresh_vm =
     \<lparr>vm_name = ''edr-test-sophos-00-1700000000'', resource_group = ''rg'',
      edr_solution = ''sophos'', status = ''available'', public_ip = ''20.0.0.4'',
      private_ip = ''10.0.0.4'', created_at = 900, last_used_at = None, use_count = 0\<rparr>"

definition one_vm_pool :: pool_state where
  "one_vm_pool =
     \<lparr>heap = [0 \<mapsto> fresh_vm], next_ref = 1,
      all_vms = [''edr-test-sophos-00-1700000000'' \<mapsto> 0],
      pools = [''crowdstrike'' \<mapsto> [], ''sentinelone'' \<mapsto> [], ''sophos'' \<mapsto> [0]],
      vm_lock = False, azure_log = []\<rparr>"

definition phase3_start :: phase3_state where
  "phase3_start = \<lparr>pool = one_vm_pool, store = job1, console_queries = []\<rparr>"

definition world_ok :: "nat \<Rightarrow> edr_world" where
  "world_ok n =
     \<lparr>w_blob = blob_ok, w_azure = azure_ok,
      w_config = \<lparr>max_vm_uses = 20, base_images = [''sophos'' \<mapsto> ''/images/sophos''],
                  azure_resource_group = ''rg''\<rparr>,
      w_get_alerts = (\<lambda>client host start end.
         Inr [PDict [(''id'', PStr ''al-1''), (''severity'', PStr ''high''),
                     (''threat_type'', PStr ''malware'')]]),
      w_iter_order = (\<lambda>types. [PStr ''malware'']),
      w_start = 5000 + 1000 * n, w_exec_start = 5010 + 1000 * n,
      w_exec_end = 5310 + 1000 * n, w_finish = 5370 + 1000 * n\<rparr>"

definition edr_unit :: edr_task where
  "edr_unit =
     \<lparr>edr_job_id = ''j1'', edr_container_name = ''test-files'',
      edr_file_info = [(''file_path'', PStr ''a.pdf''), (''version'', PStr ''pre-cdr''),
                       (''cdr_engine'', PNone)],
      edr_solution_name = ''sophos''\<rparr>"

text \<open>The entries of the Phase-3 list of job \<^verbatim>\<open>j1\<close> once a unit has come to its end.\<close>

definition phase3_records :: "(attempt \<times> phase3_state) exec \<Rightarrow> pyval list option" where
  "phase3_records r =
     (case r of
        Returns (out, st) \<Rightarrow> stored_list (store st) (phase_key ''j1'' ''phase3'')
      | Blocked b \<Rightarrow> None)"

subsection \<open>Completion of Phase 3\<close>

text \<open>
  Arithmetic on the numbers found in result dictionaries: integers (and booleans, which
  are integers in Python) stay integers under \<^verbatim>\<open>+\<close> and \<^verbatim>\<open>-\<close>, a float makes the result a
  float, anything else is a \<^verbatim>\<open>TypeError\<close>.  \<^verbatim>\<open>sum\<close> starts from the integer 0.
\<close>

definition num_value :: "pyval \<Rightarrow> rat option" where
  "num_value v =
     (case v of
        PInt i \<Rightarrow> Some (of_int i)
      | PBool b \<Rightarrow> Some (if b then 1 else 0)
      | PFloat q \<Rightarrow> Some q
      | _ \<Rightarrow> None)"

definition integral :: "pyval \<Rightarrow> bool" where
  "integral v = (case v of PInt i \<Rightarrow> True | PBool b \<Rightarrow> True | _ \<Rightarrow> False)"

definition py_number :: "bool \<Rightarrow> rat \<Rightarrow> pyval" where
  "py_number exact q = (if exact then PInt (floor q) else PFloat q)"

definition py_add :: "pyval \<Rightarrow> pyval \<Rightarrow> error + pyval" where
  "py_add a b =
     (case (num_value a, num_value b) of
        (Some x, Some y) \<Rightarrow> Inr (py_number (integral a \<and> integral b) (x + y))
      | _ \<Rightarrow> Inl (TypeError ''unsupported operand type(s) for +''))"

definition py_sub :: "pyval \<Rightarrow> pyval \<Rightarrow> error + pyval" where
  "py_sub a b =
     (case (num_value a, num_value b) of
        (Some x, Some y) \<Rightarrow> Inr (py_number (integral a \<and> integral b) (x - y))
      | _ \<Rightarrow> Inl (TypeError ''unsupported operand type(s) for -''))"

fun py_sum_from :: "pyval \<Rightarrow> pyval list \<Rightarrow> error + pyval" where
  "py_sum_from acc [] = Inr acc"
| "py_sum_from acc (x # xs) =
     (case py_add acc x of Inl e \<Rightarrow> Inl e | Inr a \<Rightarrow> py_sum_from a xs)"

definition py_sum :: "pyval list \<Rightarrow> error + pyval" where
  "py_sum xs = py_sum_from (PInt 0) xs"

text \<open>
  The summary divides and rounds in double precision.  These two operations are not
  computed here; they are taken as given: \<open>fl_percent a b\<close> is the double the program gets
  for \<^verbatim>\<open>a / b * 100\<close> and \<open>fl_round2 x\<close> the one it gets for \<^verbatim>\<open>round(x, 2)\<close>.
\<close>

record float_ops =
  fl_percent :: "rat \<Rightarrow> rat \<Rightarrow> rat"
  fl_round2 :: "rat \<Rightarrow> rat"

text \<open>\<^verbatim>\<open>(reduction / before * 100) if before > 0 else 0\<close>, on numbers.\<close>

definition reduction_pct :: "float_ops \<Rightarrow> pyval \<Rightarrow> pyval \<Rightarrow> pyval" where
  "reduction_pct fl reduction before =
     (case (num_value reduction, num_value before) of
        (Some r, Some b) \<Rightarrow> if b > 0 then PFloat (fl_percent fl r b) else PInt 0
      | _ \<Rightarrow> PInt 0)"

text \<open>\<^verbatim>\<open>round(x, 2)\<close>: an integer stays as it is.\<close>

definition py_round2 :: "float_ops \<Rightarrow> pyval \<Rightarrow> pyval" where
  "py_round2 fl v = (case v of PFloat q \<Rightarrow> PFloat (fl_round2 fl q) | _ \<Rightarrow> v)"

text \<open>\<^verbatim>\<open>r.get('alert_count', 0)\<close>.\<close>

definition alert_count_of :: "dict \<Rightarrow> pyval" where
  "alert_count_of r = (case map_of r ''alert_count'' of None \<Rightarrow> PInt 0 | Some v \<Rightarrow> v)"

definition has_version :: "string \<Rightarrow> dict \<Rightarrow> bool" where
  "has_version v r = (dict_get r ''version'' = PStr v)"

definition calculate_edr_effectiveness ::
  "float_ops \<Rightarrow> dict list \<Rightarrow> string \<Rightarrow> error + dict"
where
  "calculate_edr_effectiveness fl results edr_name =
     (let edr_results = filter (\<lambda>r. dict_get r ''edr_solution_name'' = PStr edr_name) results;
          pre_cdr = filter (has_version ''pre-cdr'') edr_results;
          post_cdr = filter (has_version ''post-cdr'') edr_results
      in case py_sum (map alert_count_of pre_cdr) of
           Inl e \<Rightarrow> Inl e
         | Inr pre_alerts \<Rightarrow>
             (case py_sum (map alert_count_of post_cdr) of
                Inl e \<Rightarrow> Inl e
              | Inr post_alerts \<Rightarrow>
                  (case py_sub pre_alerts post_alerts of
                     Inl e \<Rightarrow> Inl e
                   | Inr reduction \<Rightarrow>
                       Inr [(''tests_performed'', PInt (int (length edr_results))),
                            (''pre_cdr_alerts'', pre_alerts),
                            (''post_cdr_alerts'', post_alerts),
                            (''alert_reduction'', reduction),
                            (''alert_reduction_pct'', reduction_pct fl reduction pre_alerts)])))"

text \<open>The summary \<^verbatim>\<open>on_edr_batch_complete\<close> computes from the results of the units.\<close>

definition phase3_summary :: "float_ops \<Rightarrow> dict list \<Rightarrow> error + dict" where
  "phase3_summary fl results =
     (let total_tests = int (length results);
          successful_tests = int (length (filter successful results));
          detected = (\<lambda>r. truthy (dict_get r ''edr_detected''));
          pre_cdr_detections =
            int (length (filter (\<lambda>r. has_version ''pre-cdr'' r \<and> detected r) results));
          post_cdr_detections =
            int (length (filter (\<lambda>r. has_version ''post-cdr'' r \<and> detected r) results))
      in case py_sum (map alert_count_of (filter (has_version ''pre-cdr'') results)) of
           Inl e \<Rightarrow> Inl e
         | Inr pre_cdr_total_alerts \<Rightarrow>
         (case py_sum (map alert_count_of (filter (has_version ''post-cdr'') results)) of
           Inl e \<Rightarrow> Inl e
         | Inr post_cdr_total_alerts \<Rightarrow>
         (case py_sub pre_cdr_total_alerts post_cdr_total_alerts of
           Inl e \<Rightarrow> Inl e
         | Inr alert_reduction \<Rightarrow>
         (case calculate_edr_effectiveness fl results ''crowdstrike'' of
           Inl e \<Rightarrow> Inl e
         | Inr crowdstrike \<Rightarrow>
         (case calculate_edr_effectiveness fl results ''sentinelone'' of
           Inl e \<Rightarrow> Inl e
         | Inr sentinelone \<Rightarrow>
         (case calculate_edr_effectiveness fl results ''sophos'' of
           Inl e \<Rightarrow> Inl e
         | Inr sophos \<Rightarrow>
             Inr [(''total_tests'', PInt total_tests),
                  (''successful'', PInt successful_tests),
                  (''pre_cdr_detections'', PInt pre_cdr_detections),
                  (''post_cdr_detections'', PInt post_cdr_detections),
                  (''pre_cdr_total_alerts'', pre_cdr_total_alerts),
                  (''post_cdr_total_alerts'', post_cdr_total_alerts),
                  (''alert_reduction'', alert_reduction),
                  (''alert_reduction_percentage'',
                   py_round2 fl (reduction_pct fl alert_reduction pre_cdr_total_alerts)),
                  (''edr_effectiveness'',
                   PDict [(''crowdstrike'', PDict crowdstrike),
                          (''sentinelone'', PDict sentinelone),
                          (''sophos'', PDict sophos)])]))))))"

text \<open>
  \<^verbatim>\<open>on_edr_batch_complete\<close>: the job is patched to completed together with the summary,
  whatever the stored status is.  An exception anywhere in the \<^verbatim>\<open>try\<close>, also one of that
  patch, leads to a second patch, to failed.
\<close>

definition on_edr_batch_complete ::
  "float_ops \<Rightarrow> nat \<Rightarrow> dict list \<Rightarrow> string \<Rightarrow> redis \<Rightarrow> (error + unit) \<times> redis"
where
  "on_edr_batch_complete fl now results job_id db =
     (let failed = (\<lambda>e db'.
            update_job now job_id
              [(''status'', PStr ''failed''),
               (''error'', PStr (''Phase 3 completion error: '' @ str_of_error e))] db')
      in case phase3_summary fl results of
           Inl e \<Rightarrow> failed e db
         | Inr summary \<Rightarrow>
             (case update_job now job_id
                     [(''status'', PStr ''completed''),
                      (''completed_at'', PDatetime now),
                      (''phase3_completed'', PBool True),
                      (''phase3_summary'', PDict summary)] db of
                (Inl e, db1) \<Rightarrow> failed e db1
              | (Inr u, db1) \<Rightarrow> (Inr (), db1)))"

text \<open>The status stored for a job, if the job and the field are there.\<close>

definition stored_status :: "nat \<Rightarrow> redis \<Rightarrow> string \<Rightarrow> pyval option" where
  "stored_status now db job_id =
     (case stored_job now db job_id of None \<Rightarrow> None | Some h \<Rightarrow> h ''status'')"

text \<open>
  Float operations for the examples, where nothing is divided: exact division, and
  rounding of the exact value to the nearest hundredth.
\<close>

definition plain_floats :: float_ops where
  "plain_floats =
     \<lparr>fl_percent = (\<lambda>a b. a / b * 100), fl_round2 = (\<lambda>x. of_int (round (x * 100)) / 100)\<rparr>"

text \<open>The record of job \<^verbatim>\<open>j1\<close> in the store \<open>job1_cancelled\<close>.\<close>

definition cancelled_record :: pydict where
  "cancelled_record =
     (case stored_job 3000 job1_cancelled ''j1'' of None \<Rightarrow> Map.empty | Some h \<Rightarrow> h)"

section \<open>Properties of the VM pool\<close>

text \<open>
  C10.  Releasing a VM whose name is not in \<^verbatim>\<open>all_vms\<close> returns normally, raises
  nothing, starts no cleaning thread and leaves the whole manager state as it was: no
  queue, no \<^verbatim>\<open>VMInfo\<close> and no tracking entry changes, and nothing is asked of the
  backend.  (The lock is free when the call is entered, as it is between any two calls.)
\<close>

theorem release_vm_untracked_noop:
  assumes "all_vms s (d_vm_name vm) = None" and "\<not> vm_lock s"
  shows "release_vm cfg az now vm clean s = Returns (None, [], s)"
  using assms by (simp add: release_vm_def)

theorem release_vm_untracked_noop_witness:
  "all_vms init_pool (d_vm_name \<lparr>d_vm_name = ''edr-test-sophos-00-1700000000'',
       d_resource_group = ''rg'', d_public_ip = ''10.0.0.4'', d_private_ip = ''10.0.0.4'',
       d_edr_solution = ''sophos''\<rparr>) = None
   \<and> \<not> vm_lock init_pool
   \<and> release_vm \<lparr>max_vm_uses = 20, base_images = Map.empty, azure_resource_group = ''rg''\<rparr>
         \<lparr>az_create = (\<lambda>n. None), az_delete = (\<lambda>n. True), az_cleanup = (\<lambda>n. True),
          az_execute = (\<lambda>n. None)\<rparr>
         1700000600
         \<lparr>d_vm_name = ''edr-test-sophos-00-1700000000'',
          d_resource_group = ''rg'', d_public_ip = ''10.0.0.4'', d_private_ip = ''10.0.0.4'',
          d_edr_solution = ''sophos''\<rparr>
         True init_pool
       = Returns (None, [], init_pool)"
proof -
  have a: "all_vms init_pool (d_vm_name \<lparr>d_vm_name = ''edr-test-sophos-00-1700000000'',
       d_resource_group = ''rg'', d_public_ip = ''10.0.0.4'', d_private_ip = ''10.0.0.4'',
       d_edr_solution = ''sophos''\<rparr>) = None"
    by (simp add: init_pool_def)
  have b: "\<not> vm_lock init_pool" by (simp add: init_pool_def)
  show ?thesis using a b release_vm_untracked_noop [OF a b] by simp
qed

section \<open>Properties of the job store\<close>

subsection \<open>Reading and patching a job record\<close>

lemma is_intE: "is_int x \<Longrightarrow> \<exists>i. x = Some (PInt i)"
  by (auto simp: is_int_def split: option.splits pyval.splits)

lemma get_job_record:
  assumes "lookup now db (job_key j) = Some (RHash h)" and "job_record h"
  shows "\<exists>job. get_job now j db = Inr (Some job)
           \<and> job ''status'' = h ''status''
           \<and> job ''total_files'' = h ''total_files''
           \<and> job ''processed_files'' = h ''processed_files''
           \<and> job ''failed_files'' = h ''failed_files''"
proof -
  from assms(2) obtain st a b c where f: "h ''status'' = Some st" "h ''total_files'' = Some (PInt a)"
     "h ''processed_files'' = Some (PInt b)" "h ''failed_files'' = Some (PInt c)"
    by (auto simp: job_record_def dest!: is_intE)
  have ne: "h \<noteq> Map.empty" using f by auto
  show ?thesis using assms ne f
    by (auto simp: get_job_def hgetall_def then_convert_def convert_field_def loads_or_raise_def
         py_int_def py_float_def job_record_def split: option.splits pyval.splits sum.splits)
qed

lemma get_job_absent:
  "lookup now db (job_key j) = None \<Longrightarrow> get_job now j db = Inr None"
  by (simp add: get_job_def hgetall_def)

lemma lookup_not_expired: "lookup now db k = Some v \<Longrightarrow> purge now k db = db \<and> kv db k = Some v"
  by (auto simp: lookup_def purge_def split: if_splits)

lemma hset_hash:
  "lookup now db k = Some (RHash h) \<Longrightarrow> m \<noteq> [] \<Longrightarrow> refused (map snd m) = None \<Longrightarrow>
     hset now k m db = (Inr (), db\<lparr>kv := (kv db)(k \<mapsto> RHash (write_fields m h))\<rparr>)"
  by (auto simp: hset_def dest!: lookup_not_expired)

lemma hset_refused:
  "refused (map snd m) = Some v \<Longrightarrow> m \<noteq> [] \<Longrightarrow> hset now k m db = (Inl (invalid_input v), db)"
  by (simp add: hset_def)

lemma lookup_kv_upd:
  "lookup now db k = Some v \<Longrightarrow> lookup now (db\<lparr>kv := (kv db)(k \<mapsto> w)\<rparr>) k = Some w"
  by (auto simp: lookup_def expired_def split: if_splits)

lemma write_fields_Cons: "write_fields ((f, v) # m) h = write_fields m (h(f \<mapsto> v))"
  by (simp add: write_fields_def)

lemma write_fields_Nil: "write_fields [] h = h"
  by (simp add: write_fields_def)

lemma update_progress_record:
  assumes "lookup now db (job_key j) = Some (RHash h)" and "job_record h"
  shows "\<exists>h'. update_progress now j db = (Inr (), db\<lparr>kv := (kv db)(job_key j \<mapsto> RHash h')\<rparr>)
            \<and> (\<forall>f. f \<noteq> ''progress_percentage'' \<longrightarrow> h' f = h f) \<and> job_record h'"
proof -
  from get_job_record [OF assms] obtain job where j: "get_job now j db = Inr (Some job)"
    "job ''total_files'' = h ''total_files''" "job ''processed_files'' = h ''processed_files''"
    by blast
  from assms(2) obtain a b where f: "h ''total_files'' = Some (PInt a)"
     "h ''processed_files'' = Some (PInt b)"
    by (auto simp: job_record_def dest!: is_intE)
  have same: "db\<lparr>kv := (kv db)(job_key j \<mapsto> RHash h)\<rparr> = db"
    using lookup_not_expired [OF assms(1)] by (simp add: fun_upd_idem)
  show ?thesis
  proof (cases "a > 0")
    case False
    then have "update_progress now j db = (Inr (), db)"
      using j f by (simp add: update_progress_def)
    then show ?thesis using same assms(2) by (intro exI [of _ h]) simp
  next
    case True
    let ?h' = "h(''progress_percentage'' \<mapsto> PFloat (of_int b / of_int a * 100))"
    have "update_progress now j db = (Inr (), db\<lparr>kv := (kv db)(job_key j \<mapsto> RHash ?h')\<rparr>)"
      using j f True
        hset_hash [OF assms(1), of "[(''progress_percentage'', PFloat (of_int b / of_int a * 100))]"]
      by (simp add: update_progress_def write_fields_Cons write_fields_Nil refused_def
          encodable_def)
    moreover have "job_record ?h'" using assms(2) by (simp add: job_record_def)
    ultimately show ?thesis by (intro exI [of _ ?h']) simp
  qed
qed

lemma update_job_record:
  assumes l: "lookup now db (job_key j) = Some (RHash h)"
    and ser: "serialize_updates updates = Inr ts"
    and acc: "ts \<noteq> []" "refused (map snd ts) = None"
    and rec: "job_record (write_fields ts h)"
  shows "\<exists>h'. update_job now j updates db = (Inr (), db\<lparr>kv := (kv db)(job_key j \<mapsto> RHash h')\<rparr>)
            \<and> (\<forall>f. f \<noteq> ''progress_percentage'' \<longrightarrow> h' f = write_fields ts h f)
            \<and> job_record h'"
proof -
  let ?db1 = "db\<lparr>kv := (kv db)(job_key j \<mapsto> RHash (write_fields ts h))\<rparr>"
  have l1: "lookup now ?db1 (job_key j) = Some (RHash (write_fields ts h))"
    by (rule lookup_kv_upd [OF l])
  from update_progress_record [OF l1 rec] obtain h' where
    up: "update_progress now j ?db1 = (Inr (), ?db1\<lparr>kv := (kv ?db1)(job_key j \<mapsto> RHash h')\<rparr>)"
    and same: "\<forall>f. f \<noteq> ''progress_percentage'' \<longrightarrow> h' f = write_fields ts h f"
    and rec': "job_record h'"
    by blast
  have "update_job now j updates db = (Inr (), db\<lparr>kv := (kv db)(job_key j \<mapsto> RHash h')\<rparr>)"
    using ser hset_hash [OF l acc] up by (simp add: update_job_def and_then_def)
  then show ?thesis using same rec' by blast
qed

subsection \<open>Cancellation\<close>

text \<open>
  C7.  For a job key that holds nothing or a job record: when the job exists with a
  status other than completed, failed and cancelled, \<^verbatim>\<open>cancel_job\<close> returns \<^verbatim>\<open>True\<close> and the
  stored record then has status cancelled and \<^verbatim>\<open>cancelled_at\<close> stamped with the current
  time; in every other case (missing, or already terminal) it returns \<^verbatim>\<open>False\<close> and the
  store is exactly as before.  The endpoint answers 404 exactly when \<^verbatim>\<open>cancel_job\<close>
  returns \<^verbatim>\<open>False\<close>.
\<close>

theorem cancel_job_iff:
  assumes wf: "well_formed_store now db job_id"
  shows "(cancellable now db job_id \<longrightarrow>
            (\<exists>db' h'. cancel_job now job_id db = (Inr True, db')
               \<and> stored_job now db' job_id = Some h'
               \<and> h' ''status'' = Some (PStr ''cancelled'')
               \<and> h' ''cancelled_at'' = Some (PIso now)))
       \<and> (\<not> cancellable now db job_id \<longrightarrow> cancel_job now job_id db = (Inr False, db))
       \<and> (fst (cancel_job_endpoint now job_id db) = 404
            \<longleftrightarrow> fst (cancel_job now job_id db) = Inr False)"
proof (intro conjI impI)
  assume c: "cancellable now db job_id"
  then obtain h st where l: "lookup now db (job_key job_id) = Some (RHash h)"
    and st: "h ''status'' = Some st" "st \<notin> set terminal_statuses"
    by (auto simp: cancellable_def stored_job_def split: option.splits rvalue.splits)
  from wf l have rec: "job_record h" by (simp add: well_formed_store_def)
  from get_job_record [OF l rec] st obtain job where
    g: "get_job now job_id db = Inr (Some job)" "job ''status'' = Some st" by auto
  let ?ts = "[(''status'', PStr ''cancelled''), (''cancelled_at'', PIso now)]"
  have ser: "serialize_updates [(''status'', PStr ''cancelled''), (''cancelled_at'', PDatetime now)]
               = Inr ?ts"
    by (simp add: serialize_value_def)
  have rec': "job_record (write_fields ?ts h)"
    using rec by (simp add: job_record_def write_fields_Cons write_fields_Nil)
  have acc: "?ts \<noteq> []" "refused (map snd ?ts) = None"
    by (simp_all add: refused_def encodable_def)
  from update_job_record [OF l ser acc rec'] obtain h' where
    u: "update_job now job_id [(''status'', PStr ''cancelled''), (''cancelled_at'', PDatetime now)] db
          = (Inr (), db\<lparr>kv := (kv db)(job_key job_id \<mapsto> RHash h')\<rparr>)"
    and same: "\<forall>f. f \<noteq> ''progress_percentage'' \<longrightarrow> h' f = write_fields ?ts h f"
    by blast
  have "cancel_job now job_id db = (Inr True, db\<lparr>kv := (kv db)(job_key job_id \<mapsto> RHash h')\<rparr>)"
    using g st u by (simp add: cancel_job_def and_then_def)
  moreover have "stored_job now (db\<lparr>kv := (kv db)(job_key job_id \<mapsto> RHash h')\<rparr>) job_id = Some h'"
    using lookup_kv_upd [OF l] by (simp add: stored_job_def)
  moreover have "h' ''status'' = Some (PStr ''cancelled'')" "h' ''cancelled_at'' = Some (PIso now)"
    using same by (simp_all add: write_fields_Cons write_fields_Nil)
  ultimately show "\<exists>db' h'. cancel_job now job_id db = (Inr True, db')
               \<and> stored_job now db' job_id = Some h'
               \<and> h' ''status'' = Some (PStr ''cancelled'')
               \<and> h' ''cancelled_at'' = Some (PIso now)"
    by blast
next
  assume n: "\<not> cancellable now db job_id"
  show "cancel_job now job_id db = (Inr False, db)"
  proof (cases "lookup now db (job_key job_id)")
    case None
    then show ?thesis by (simp add: cancel_job_def get_job_absent)
  next
    case (Some v)
    with wf obtain h where l: "lookup now db (job_key job_id) = Some (RHash h)" and rec: "job_record h"
      by (auto simp: well_formed_store_def split: rvalue.splits)
    from rec obtain st where st: "h ''status'' = Some st" by (auto simp: job_record_def)
    with n l have t: "st \<in> set terminal_statuses"
      by (simp add: cancellable_def stored_job_def)
    from get_job_record [OF l rec] st obtain job where
      g: "get_job now job_id db = Inr (Some job)" "job ''status'' = Some st" by auto
    then show ?thesis using t by (simp add: cancel_job_def)
  qed
next
  show "fst (cancel_job_endpoint now job_id db) = 404
            \<longleftrightarrow> fst (cancel_job now job_id db) = Inr False"
    by (auto simp: cancel_job_endpoint_def split: prod.splits sum.splits)
qed

lemmas store_defs = create_job_def hset_def lpush_def expire_def purge_def expired_def
  and_then_def job_key_def jobs_list_key_def write_fields_def empty_redis_def lookup_def
  hgetall_def hincrby_def rpush_def phase_key_def refused_def encodable_def int64_def
  stored_integer_def job1_record_def

lemmas manager_defs = cancel_job_def get_job_def then_convert_def convert_field_def
  loads_or_raise_def json_loads_def py_int_def py_float_def update_job_def serialize_value_def
  update_progress_def terminal_statuses_def

lemma job1_wf: "well_formed_store 2000 job1 ''j1''"
  by (simp add: job1_def store_defs well_formed_store_def job_record_def is_int_def json_loads_def)

lemma job1_c: "cancellable 2000 job1 ''j1''"
  by (simp add: job1_def store_defs cancellable_def stored_job_def terminal_statuses_def)

lemma job1c_wf: "well_formed_store 3000 job1_cancelled ''j1''"
  by (simp add: job1_cancelled_def job1_def store_defs manager_defs well_formed_store_def
      job_record_def is_int_def)

lemma job1c_nc: "\<not> cancellable 3000 job1_cancelled ''j1''"
  by (simp add: job1_cancelled_def job1_def store_defs manager_defs cancellable_def
      stored_job_def)

theorem cancel_job_iff_witness:
  "well_formed_store 2000 job1 ''j1'' \<and> cancellable 2000 job1 ''j1''
   \<and> (\<exists>db' h'. cancel_job 2000 ''j1'' job1 = (Inr True, db')
               \<and> stored_job 2000 db' ''j1'' = Some h'
               \<and> h' ''status'' = Some (PStr ''cancelled'')
               \<and> h' ''cancelled_at'' = Some (PIso 2000))
   \<and> well_formed_store 3000 job1_cancelled ''j1'' \<and> \<not> cancellable 3000 job1_cancelled ''j1''
   \<and> cancel_job 3000 ''j1'' job1_cancelled = (Inr False, job1_cancelled)
   \<and> fst (cancel_job_endpoint 3000 ''j1'' job1_cancelled) = 404"
  using cancel_job_iff [OF job1_wf] job1_c cancel_job_iff [OF job1c_wf] job1c_nc job1_wf job1c_wf
  by simp

subsection \<open>Per-phase result lists\<close>

lemma lrange_slice_all: "lrange_slice 0 (- 1) xs = xs"
  by (simp add: lrange_slice_def Let_def)

lemma map_filter_append: "List.map_filter f (xs @ ys) = List.map_filter f xs @ List.map_filter f ys"
  by (simp add: List.map_filter_def)

lemma get_phase_results_stored:
  assumes "expires db (phase_key j p) = None" and "stored_list db (phase_key j p) = Some xs"
  shows "get_phase_results now j p db = Inr (List.map_filter json_loads xs)"
  using assms
  by (auto simp: get_phase_results_def lrange_def lookup_def expired_def stored_list_def
       lrange_slice_all List.map_filter_simps split: option.splits rvalue.splits)

lemma add_file_result_stored:
  assumes "expires db (phase_key j p) = None" and "stored_list db (phase_key j p) = Some xs"
    and "json_serializable r"
  shows "add_file_result t j p r db
           = (Inr (), db\<lparr>kv := (kv db)(phase_key j p \<mapsto> RList (xs @ [PJson r]))\<rparr>)"
  using assms
  by (auto simp: add_file_result_def json_dumps_def rpush_def purge_def expired_def
       stored_list_def encodable_def Let_def split: option.splits rvalue.splits)



subsection \<open>Retention\<close>

text \<open>
  \<^verbatim>\<open>create_job\<close> hands \<^verbatim>\<open>hset\<close> a mapping with \<^verbatim>\<open>'current_phase': None\<close>.  The client refuses
  it, so the call raises and leaves the store as it was: it reaches neither the push on
  \<^verbatim>\<open>jobs:list\<close> nor its \<^verbatim>\<open>expire\<close> of 604800 seconds, the only one in the manager.
\<close>

lemma create_job_refused:
  "create_job now job_id container_name file_paths phases priority db
     = (Inl (invalid_input PNone), db)"
  by (simp add: create_job_def hset_def refused_def encodable_def and_then_def)

lemma phase_key_differs: "job_key j \<noteq> phase_key j p"
  by (simp add: job_key_def phase_key_def)

text \<open>
  C8, as the sources have it.  A job record under a time to live is readable until the
  deadline and \<^verbatim>\<open>get_job\<close> returns \<^verbatim>\<open>None\<close> from the deadline on.  \<^verbatim>\<open>add_file_result\<close> sets no
  time to live: after an append to a phase list that has none, the list still has none
  and \<^verbatim>\<open>get_phase_results\<close> returns its entries at every later time, also when the record
  of the job has expired.
\<close>

theorem record_expires_lists_stay:
  assumes rec: "kv db (job_key job_id) = Some (RHash h)" "job_record h"
    and ttl: "expires db (job_key job_id) = Some deadline"
    and lst: "expires db (phase_key job_id phase) = None"
             "stored_list db (phase_key job_id phase) = Some xs"
    and ser: "json_serializable r"
  shows "(\<forall>t. t < deadline \<longrightarrow> (\<exists>job. get_job t job_id db = Inr (Some job)))
       \<and> (\<forall>t. deadline \<le> t \<longrightarrow> get_job t job_id db = Inr None)
       \<and> (\<exists>db'. add_file_result now job_id phase r db = (Inr (), db')
              \<and> expires db' (phase_key job_id phase) = None
              \<and> (\<forall>t. get_phase_results t job_id phase db'
                        = Inr (List.map_filter json_loads xs @ [r]))
              \<and> (\<forall>t. deadline \<le> t \<longrightarrow> get_job t job_id db' = Inr None))"
proof (intro conjI allI impI)
  fix t assume "t < deadline"
  then have "lookup t db (job_key job_id) = Some (RHash h)"
    using rec(1) ttl by (simp add: lookup_def expired_def)
  from get_job_record [OF this rec(2)] show "\<exists>job. get_job t job_id db = Inr (Some job)"
    by blast
next
  fix t assume "deadline \<le> t"
  then have "lookup t db (job_key job_id) = None"
    using ttl by (simp add: lookup_def expired_def)
  then show "get_job t job_id db = Inr None" by (rule get_job_absent)
next
  let ?db' = "db\<lparr>kv := (kv db)(phase_key job_id phase \<mapsto> RList (xs @ [PJson r]))\<rparr>"
  have a: "add_file_result now job_id phase r db = (Inr (), ?db')"
    by (rule add_file_result_stored [OF lst ser])
  have e: "expires ?db' (phase_key job_id phase) = None" using lst(1) by simp
  have s: "stored_list ?db' (phase_key job_id phase) = Some (xs @ [PJson r])"
    by (simp add: stored_list_def)
  have g: "get_phase_results t job_id phase ?db' = Inr (List.map_filter json_loads xs @ [r])"
    for t
    using get_phase_results_stored [OF e s, of t]
    by (simp add: map_filter_append List.map_filter_simps json_loads_def)
  have n: "get_job t job_id ?db' = Inr None" if "deadline \<le> t" for t
  proof -
    have "lookup t ?db' (job_key job_id) = None"
      using ttl that by (simp add: lookup_def expired_def)
    then show ?thesis by (rule get_job_absent)
  qed
  show "\<exists>db'. add_file_result now job_id phase r db = (Inr (), db')
              \<and> expires db' (phase_key job_id phase) = None
              \<and> (\<forall>t. get_phase_results t job_id phase db'
                        = Inr (List.map_filter json_loads xs @ [r]))
              \<and> (\<forall>t. deadline \<le> t \<longrightarrow> get_job t job_id db' = Inr None)"
    using a e g n by blast
qed

lemma job1_record_ok: "job_record job1_record"
  by (simp add: job1_record_def job_record_def is_int_def json_loads_def)

theorem record_expires_lists_stay_witness:
  "kv job1 (job_key ''j1'') = Some (RHash job1_record)
   \<and> job_record job1_record
   \<and> expires job1 (job_key ''j1'') = Some 605800
   \<and> expires job1 (phase_key ''j1'' ''phase1'') = None
   \<and> stored_list job1 (phase_key ''j1'' ''phase1'') = Some []
   \<and> json_serializable (PDict [(''file_path'', PStr ''a.pdf''), (''status'', PStr ''success'')])
   \<and> (\<exists>job. get_job 605799 ''j1'' job1 = Inr (Some job))
   \<and> get_job 605800 ''j1'' job1 = Inr None
   \<and> (\<exists>db'. add_file_result 1500 ''j1'' ''phase1''
               (PDict [(''file_path'', PStr ''a.pdf''), (''status'', PStr ''success'')]) job1
              = (Inr (), db')
          \<and> expires db' (phase_key ''j1'' ''phase1'') = None
          \<and> get_phase_results 700000 ''j1'' ''phase1'' db'
              = Inr [PDict [(''file_path'', PStr ''a.pdf''), (''status'', PStr ''success'')]])"
proof -
  let ?r = "PDict [(''file_path'', PStr ''a.pdf''), (''status'', PStr ''success'')]"
  have a: "kv job1 (job_key ''j1'') = Some (RHash job1_record)"
    by (simp add: job1_def job_key_def)
  have b: "expires job1 (job_key ''j1'') = Some 605800" by (simp add: job1_def job_key_def)
  have c: "expires job1 (phase_key ''j1'' ''phase1'') = None"
    by (simp add: job1_def phase_key_def)
  have d: "stored_list job1 (phase_key ''j1'' ''phase1'') = Some []"
    by (simp add: job1_def phase_key_def stored_list_def)
  have e: "json_serializable ?r" by simp
  note t = record_expires_lists_stay [OF a job1_record_ok b c d e, of 1500]
  have l: "\<exists>job. get_job 605799 ''j1'' job1 = Inr (Some job)" using t by simp
  have g: "get_job 605800 ''j1'' job1 = Inr None" using t by simp
  from t obtain db' where
    x: "add_file_result 1500 ''j1'' ''phase1'' ?r job1 = (Inr (), db')"
       "expires db' (phase_key ''j1'' ''phase1'') = None"
       "\<forall>t. get_phase_results t ''j1'' ''phase1'' db' = Inr (List.map_filter json_loads [] @ [?r])"
    by blast
  have y: "get_phase_results 700000 ''j1'' ''phase1'' db' = Inr [?r]"
    using x(3) by (simp add: List.map_filter_simps)
  have z: "\<exists>db'. add_file_result 1500 ''j1'' ''phase1'' ?r job1 = (Inr (), db')
          \<and> expires db' (phase_key ''j1'' ''phase1'') = None
          \<and> get_phase_results 700000 ''j1'' ''phase1'' db' = Inr [?r]"
    using x(1) x(2) y by blast
  show ?thesis using a job1_record_ok b c d e l g z by blast
qed

text \<open>
  The claim as written fails: at time 700000 the record of the job, whose time to live
  ended at 605800, is gone, while the Phase-1 list written at time 1500 has no time to
  live and still holds its result.
\<close>

theorem ttl_counterexample:
  "get_job 700000 ''j1'' job1_with_result = Inr None
   \<and> expires job1_with_result (phase_key ''j1'' ''phase1'') = None
   \<and> get_phase_results 700000 ''j1'' ''phase1'' job1_with_result
       = Inr [PDict [(''file_path'', PStr ''a.pdf''), (''status'', PStr ''success'')]]"
  by (simp add: job1_with_result_def job1_def store_defs add_file_result_def json_dumps_def
      get_job_def get_phase_results_def lrange_def lrange_slice_def List.map_filter_simps
      json_loads_def)

section \<open>Releasing a VM\<close>

text \<open>
  The branches of \<^verbatim>\<open>release_vm\<close> below the recycling threshold: with \<^verbatim>\<open>clean\<close> the VM is
  marked cleaning and a cleaning thread is started, which on success marks it available
  and puts it back and on failure recycles it; without \<^verbatim>\<open>clean\<close> it is marked available
  and put back at once.
\<close>

lemma release_vm_clean:
  assumes "\<not> vm_lock s" and "all_vms s (d_vm_name vm) = Some r" and "heap s r = Some v"
    and "use_count v < max_vm_uses cfg"
  shows "release_vm cfg az now vm True s =
           Returns (None, [CleanAndReturn r],
                    s\<lparr>heap := (heap s)(r \<mapsto> v\<lparr>status := ''cleaning''\<rparr>)\<rparr>)"
  using assms by (simp add: release_vm_def set_status_def)

lemma release_vm_direct:
  assumes "\<not> vm_lock s" and "all_vms s (d_vm_name vm) = Some r" and "heap s r = Some v"
    and "use_count v < max_vm_uses cfg" and "pools s (d_edr_solution vm) = Some q"
  shows "release_vm cfg az now vm False s =
           Returns (None, [],
                    s\<lparr>heap := (heap s)(r \<mapsto> v\<lparr>status := ''available''\<rparr>),
                      pools := (pools s)(d_edr_solution vm \<mapsto> q @ [r])\<rparr>)"
  using assms by (simp add: release_vm_def set_status_def queue_put_def)

lemma clean_and_return_vm_ok:
  assumes "\<not> vm_lock s" and "heap s r = Some v" and "az_cleanup az (vm_name v)"
    and "pools s (edr_solution v) = Some q"
  shows "clean_and_return_vm cfg az now r s =
           Returns (s\<lparr>heap := (heap s)(r \<mapsto> v\<lparr>status := ''available''\<rparr>),
                      pools := (pools s)(edr_solution v \<mapsto> q @ [r]),
                      azure_log := azure_log s @ [RunCleanup (vm_name v)]\<rparr>)"
  using assms
  by (simp add: clean_and_return_vm_def set_status_def queue_put_def log_call_def Let_def)

lemma clean_and_return_vm_failure:
  assumes "heap s r = Some v" and "\<not> az_cleanup az (vm_name v)"
  shows "clean_and_return_vm cfg az now r s =
           recycle_vm cfg az now r (s\<lparr>azure_log := azure_log s @ [RunCleanup (vm_name v)]\<rparr>)"
  using assms by (simp add: clean_and_return_vm_def log_call_def Let_def)

text \<open>
  \<^verbatim>\<open>_recycle_vm\<close> entered with the lock free (as from the cleaning thread) deletes the VM,
  provisions a replacement under a new name with use count 0, tracks it and puts it in
  the queue.
\<close>

lemma recycle_vm_unlocked:
  assumes "\<not> vm_lock s"
    and "heap s r = Some v"
    and "all_vms s (vm_name v) = Some r"
    and "pools s (edr_solution v) = Some q"
    and "az_delete az (vm_name v)"
    and "base_images cfg (edr_solution v) = Some img" and "img \<noteq> []"
    and "az_create az (''edr-test-'' @ edr_solution v @ ''-'' @ string_of_nat now) = Some (pub, priv)"
  shows "\<exists>s'. recycle_vm cfg az now r s = Returns s'
           \<and> pools s' (edr_solution v) = Some (q @ [next_ref s])
           \<and> all_vms s' (''edr-test-'' @ edr_solution v @ ''-'' @ string_of_nat now)
                = Some (next_ref s)
           \<and> map_option use_count (heap s' (next_ref s)) = Some 0
           \<and> map_option status (heap s' (next_ref s)) = Some ''available''"
  using assms
  by (simp add: recycle_vm_def delete_vm_def provision_vm_def log_call_def Let_def queue_put_def)

lemma string_of_nat_example: "string_of_nat 1700009000 = ''1700009000''"
  by (simp add: string_of_nat.simps digit_char_def)

text \<open>
  C5, first branch, as the sources behave.  \<^verbatim>\<open>release_vm\<close> calls \<^verbatim>\<open>_recycle_vm\<close> inside its
  own \<^verbatim>\<open>with self.vm_lock\<close> block, and \<^verbatim>\<open>_recycle_vm\<close> takes the same non-re-entrant lock
  again after the VM was deleted and the replacement provisioned.  For a tracked VM that
  reached \<^verbatim>\<open>max_vm_uses\<close>, with a backend that deletes and provisions successfully, the
  call never returns: it stops with the lock held, the old VM still tracked, the
  replacement neither tracked nor queued.
\<close>

theorem release_vm_recycle_blocks:
  assumes "\<not> vm_lock s"
    and "all_vms s (d_vm_name vm) = Some r"
    and "heap s r = Some v"
    and "max_vm_uses cfg \<le> use_count v"
    and "az_delete az (vm_name v)"
    and "base_images cfg (edr_solution v) = Some img" and "img \<noteq> []"
    and "az_create az (''edr-test-'' @ edr_solution v @ ''-'' @ string_of_nat now) = Some ips"
  shows "release_vm cfg az now vm clean s =
           Blocked (s\<lparr>vm_lock := True,
                      azure_log := azure_log s @
                        [BeginDelete (vm_name v),
                         BeginCreate (''edr-test-'' @ edr_solution v @ ''-'' @ string_of_nat now)]\<rparr>)"
  using assms
  by (cases ips)
     (simp add: release_vm_def recycle_vm_def delete_vm_def provision_vm_def log_call_def Let_def)

theorem release_vm_recycle_blocks_witness:
  "\<not> vm_lock used_up_pool
   \<and> all_vms used_up_pool (d_vm_name used_up_dict) = Some 0
   \<and> heap used_up_pool 0 = Some used_up_vm
   \<and> max_vm_uses three_uses \<le> use_count used_up_vm
   \<and> az_delete azure_ok (vm_name used_up_vm)
   \<and> base_images three_uses (edr_solution used_up_vm) = Some ''/images/sophos''
   \<and> az_create azure_ok (''edr-test-'' @ edr_solution used_up_vm @ ''-'' @ string_of_nat 1700009000)
        = Some (''20.0.0.5'', ''10.0.0.5'')
   \<and> release_vm three_uses azure_ok 1700009000 used_up_dict True used_up_pool =
        Blocked (used_up_pool\<lparr>vm_lock := True,
                   azure_log := [BeginDelete ''edr-test-sophos-00-1700000000'',
                                 BeginCreate ''edr-test-sophos-1700009000'']\<rparr>)"
proof -
  have a: "\<not> vm_lock used_up_pool" by (simp add: used_up_pool_def init_pool_def)
  have b: "all_vms used_up_pool (d_vm_name used_up_dict) = Some 0"
    by (simp add: used_up_pool_def used_up_dict_def)
  have c: "heap used_up_pool 0 = Some used_up_vm" by (simp add: used_up_pool_def)
  have d: "max_vm_uses three_uses \<le> use_count used_up_vm"
    by (simp add: three_uses_def used_up_vm_def)
  have e: "az_delete azure_ok (vm_name used_up_vm)" by (simp add: azure_ok_def)
  have f: "base_images three_uses (edr_solution used_up_vm) = Some ''/images/sophos''"
    by (simp add: three_uses_def used_up_vm_def)
  have g: "''/images/sophos'' \<noteq> []" by simp
  have h: "az_create azure_ok (''edr-test-'' @ edr_solution used_up_vm @ ''-'' @ string_of_nat 1700009000)
        = Some (''20.0.0.5'', ''10.0.0.5'')" by (simp add: azure_ok_def)
  have l: "azure_log used_up_pool = []" by (simp add: used_up_pool_def init_pool_def)
  show ?thesis
    using a b c d e f h release_vm_recycle_blocks [OF a b c d e f g h, of True] l
    by (simp add: string_of_nat_example used_up_vm_def)
qed

section \<open>Progress counters\<close>

lemmas phase1_defs = process_cdr_batch_def cdr_tasks_def cdr_engines_def fail_job_def
  process_single_file_cdr_def cdr_outcome_def dict_update_def add_file_result_def json_dumps_def
  increment_processed_def increment_failed_def str_of_error_def

lemma one_file_batch_tasks:
  "fst one_file_batch =
     Inr [\<lparr>cdr_job_id = ''j1'', cdr_container_name = ''test-files'',
                cdr_file_path = ''a.pdf'', cdr_engine_name = ''glasswall''\<rparr>,
          \<lparr>cdr_job_id = ''j1'', cdr_container_name = ''test-files'',
                cdr_file_path = ''a.pdf'', cdr_engine_name = ''opswat''\<rparr>,
          \<lparr>cdr_job_id = ''j1'', cdr_container_name = ''test-files'',
                cdr_file_path = ''a.pdf'', cdr_engine_name = ''votiro''\<rparr>]"
  by (simp add: one_file_batch_def job1_def phase1_defs store_defs manager_defs)

text \<open>
  C2 on the sources.  \<^verbatim>\<open>process_cdr_batch\<close> sets \<^verbatim>\<open>total_files\<close> to the number of file
  paths, while it dispatches one unit per file and engine and every unit increments
  \<^verbatim>\<open>processed_files\<close>.  The run starts from the stored record \<open>job1_record\<close> (pending, all
  counters 0) and the one file path \<^verbatim>\<open>a.pdf\<close>: the three units all succeed and leave
  \<^verbatim>\<open>total_files = 1\<close>, \<^verbatim>\<open>processed_files = 3\<close>, \<^verbatim>\<open>failed_files = 0\<close> and a progress of 300
  percent: the processed count exceeds the total.
\<close>

theorem processed_exceeds_total:
  "\<not> isl (fst one_file_done)
   \<and> map_option (\<lambda>h. (h ''total_files'', h ''processed_files'', h ''failed_files'',
                       h ''progress_percentage''))
        (stored_job 1500 (snd one_file_done) ''j1'')
       = Some (Some (PInt 1), Some (PInt 3), Some (PInt 0), Some (PFloat 300))"
  by (simp add: one_file_done_def one_file_batch_def job1_def blob_ok_def sanitize_ok_def
      phase1_defs store_defs manager_defs stored_job_def Let_def)

section \<open>Planning of Phase 2\<close>

lemma length_scan_tasks: "length (scan_tasks j c fs) = length fs * length av_engines"
  by (induction fs) (simp_all add: scan_tasks_def)

lemma sum_indicator_distinct:
  "distinct xs \<Longrightarrow> (\<Sum>x\<leftarrow>xs. if P \<and> y = x then 1 else 0) = (if P \<and> y \<in> set xs then (1::nat) else 0)"
  by (induction xs) auto

lemma length_planned_files_aux:
  assumes "distinct order"
  shows "(\<Sum>f\<leftarrow>order. length (filter (\<lambda>r. dict_get r ''file_path'' = f \<and> successful r) rs))
           = length (filter (\<lambda>r. successful r \<and> dict_get r ''file_path'' \<in> set order) rs)"
proof (induction rs)
  case Nil
  then show ?case by simp
next
  case (Cons r rs)
  have "(\<Sum>f\<leftarrow>order. length (filter (\<lambda>r. dict_get r ''file_path'' = f \<and> successful r) (r # rs)))
      = (\<Sum>f\<leftarrow>order. (if successful r \<and> dict_get r ''file_path'' = f then 1 else 0)
            + length (filter (\<lambda>r. dict_get r ''file_path'' = f \<and> successful r) rs))"
    by (rule arg_cong [where f = sum_list]) (auto intro!: map_cong)
  also have "\<dots> = (\<Sum>f\<leftarrow>order. if successful r \<and> dict_get r ''file_path'' = f then 1 else 0)
            + (\<Sum>f\<leftarrow>order. length (filter (\<lambda>r. dict_get r ''file_path'' = f \<and> successful r) rs))"
    by (simp add: sum_list_addf)
  finally show ?case
    using Cons.IH sum_indicator_distinct [OF assms, of "successful r" "dict_get r ''file_path''"]
    by simp
qed

lemma length_planned_files:
  assumes "distinct order"
  shows "length (planned_files order rs)
           = length order
             + length (filter (\<lambda>r. successful r \<and> dict_get r ''file_path'' \<in> set order) rs)"
proof -
  have "length (planned_files order rs)
          = (\<Sum>f\<leftarrow>order. 1 + length (filter (\<lambda>r. dict_get r ''file_path'' = f \<and> successful r) rs))"
    by (simp add: planned_files_def length_concat comp_def)
  also have "\<dots> = length order
       + (\<Sum>f\<leftarrow>order. length (filter (\<lambda>r. dict_get r ''file_path'' = f \<and> successful r) rs))"
    by (induction order) simp_all
  finally show ?thesis using length_planned_files_aux [OF assms] by simp
qed

lemma mset_concat_map_cong:
  assumes "mset xs = mset ys"
  shows "mset (concat (map f xs)) = mset (concat (map f ys))"
proof -
  have "mset (concat (map f zs)) = sum_mset (image_mset (\<lambda>z. mset (f z)) (mset zs))" for zs
    by (induction zs) simp_all
  then show ?thesis using assms by simp
qed

lemma post_entries_of_distinct:
  assumes "distinct order"
  shows "(\<Sum>f\<leftarrow>order. if P \<and> y = f then {#g f#} else {#})
           = (if P \<and> y \<in> set order then {#g y#} else {#})"
  using assms by (induction order) auto

lemma mset_post_entries:
  assumes "distinct order"
  shows "(\<Sum>f\<leftarrow>order. mset (map (post_cdr_entry f)
             (filter (\<lambda>r. dict_get r ''file_path'' = f \<and> successful r) rs)))
           = mset (map (\<lambda>r. post_cdr_entry (dict_get r ''file_path'') r)
               (filter (\<lambda>r. successful r \<and> dict_get r ''file_path'' \<in> set order) rs))"
proof (induction rs)
  case Nil
  then show ?case by (induction order) simp_all
next
  case (Cons r rs)
  have "(\<Sum>f\<leftarrow>order. mset (map (post_cdr_entry f)
             (filter (\<lambda>r. dict_get r ''file_path'' = f \<and> successful r) (r # rs))))
      = (\<Sum>f\<leftarrow>order.
            (if successful r \<and> dict_get r ''file_path'' = f then {#post_cdr_entry f r#} else {#})
            + mset (map (post_cdr_entry f)
                (filter (\<lambda>r. dict_get r ''file_path'' = f \<and> successful r) rs)))"
    by (rule arg_cong [where f = sum_list]) (auto intro!: map_cong)
  also have "\<dots> = (\<Sum>f\<leftarrow>order.
            if successful r \<and> dict_get r ''file_path'' = f then {#post_cdr_entry f r#} else {#})
          + (\<Sum>f\<leftarrow>order. mset (map (post_cdr_entry f)
                (filter (\<lambda>r. dict_get r ''file_path'' = f \<and> successful r) rs)))"
    by (simp add: sum_list_addf)
  finally show ?case
    using Cons.IH
      post_entries_of_distinct [OF assms, of "successful r" "dict_get r ''file_path''"
        "\<lambda>f. post_cdr_entry f r"]
    by simp
qed

lemma mset_planned_files:
  assumes "distinct order"
  shows "mset (planned_files order rs)
           = mset (map pre_cdr_entry order
                   @ map (\<lambda>r. post_cdr_entry (dict_get r ''file_path'') r)
                       (filter (\<lambda>r. successful r \<and> dict_get r ''file_path'' \<in> set order) rs))"
proof -
  have "mset (planned_files order' rs)
          = mset (map pre_cdr_entry order')
            + (\<Sum>f\<leftarrow>order'. mset (map (post_cdr_entry f)
                   (filter (\<lambda>r. dict_get r ''file_path'' = f \<and> successful r) rs)))"
    for order'
    by (induction order') (simp_all add: planned_files_def)
  then show ?thesis using mset_post_entries [OF assms, of rs] by simp
qed

text \<open>
  C4.  When the job record can be patched and read, the Phase-1 list can be read, its
  entries are dictionaries and the paths of the successful ones are texts, then for
  every order in which the set of original files is iterated \<^verbatim>\<open>scan_av_batch\<close> dispatches
  exactly these units: for every original file of the set and every AV engine one
  unit for the original path, marked pre-cdr and without a CDR engine; for every
  successful Phase-1 result and every AV engine one unit for the sanitised path of that
  result, marked post-cdr and carrying the CDR engine of the result and its original
  path.  Their number is \<open>(U + S) * A\<close>: \<open>U\<close> the number of distinct paths with a
  successful result, \<open>S\<close> the number of successful results, \<open>A\<close> the number of AV
  engines.
\<close>

theorem scan_av_batch_count:
  assumes upd: "update_job now job_id
                  [(''current_phase'', PInt 2), (''phase2_started_at'', PDatetime now)] db
                = (Inr (), db1)"
    and job: "get_job now job_id db1 = Inr (Some job)"
    and res: "get_phase_results now job_id ''phase1'' db1 = Inr parsed"
    and dicts: "all_dicts parsed = Inr phase1_results"
    and paths: "list_all is_str
                  (map (\<lambda>r. dict_get r ''file_path'') (filter successful phase1_results))"
    and order: "distinct (iter_order (original_files phase1_results))"
               "set (iter_order (original_files phase1_results)) = original_files phase1_results"
  shows "\<exists>tasks. scan_av_batch iter_order now job_id db = (Inr tasks, db1)
           \<and> tasks = scan_tasks job_id (job_get job ''container_name'')
                       (planned_files (iter_order (original_files phase1_results))
                          phase1_results)
           \<and> mset tasks
               = mset (concat (map (\<lambda>original_file.
                         map (\<lambda>av_engine_name.
                                \<lparr>scan_job_id = job_id,
                                 scan_container_name = job_get job ''container_name'',
                                 scan_file_info =
                                   [(''file_path'', original_file),
                                    (''version'', PStr ''pre-cdr''),
                                    (''cdr_engine'', PNone)],
                                 scan_engine_name = av_engine_name\<rparr>)
                             av_engines)
                       (iter_order (original_files phase1_results))))
                 + mset (concat (map (\<lambda>r.
                         map (\<lambda>av_engine_name.
                                \<lparr>scan_job_id = job_id,
                                 scan_container_name = job_get job ''container_name'',
                                 scan_file_info =
                                   [(''file_path'', dict_get r ''sanitized_blob_path''),
                                    (''version'', PStr ''post-cdr''),
                                    (''cdr_engine'', dict_get r ''engine_name''),
                                    (''original_file'', dict_get r ''file_path'')],
                                 scan_engine_name = av_engine_name\<rparr>)
                             av_engines)
                       (filter successful phase1_results)))
           \<and> length tasks
               = (card (original_files phase1_results)
                  + length (filter successful phase1_results)) * length av_engines"
proof -
  let ?order = "iter_order (original_files phase1_results)"
  have h: "list_all hashable
             (map (\<lambda>r. dict_get r ''file_path'') (filter successful phase1_results))"
    using paths by (auto simp: list_all_iff is_str_def hashable_def split: pyval.splits)
  have run: "scan_av_batch iter_order now job_id db
               = (Inr (scan_tasks job_id (job_get job ''container_name'')
                         (planned_files ?order phase1_results)), db1)"
    using upd job res dicts h by (simp add: scan_av_batch_def)
  have same: "filter (\<lambda>r. successful r \<and> dict_get r ''file_path'' \<in> set ?order) phase1_results
          = filter successful phase1_results"
    using order(2) by (auto simp: original_files_def intro!: filter_cong)
  then have "length (planned_files ?order phase1_results)
          = length ?order + length (filter successful phase1_results)"
    using length_planned_files [OF order(1), of phase1_results] by simp
  moreover have "length ?order = card (original_files phase1_results)"
    using distinct_card [OF order(1)] order(2) by simp
  ultimately have len: "length (scan_tasks job_id (job_get job ''container_name'')
                         (planned_files ?order phase1_results))
      = (card (original_files phase1_results)
         + length (filter successful phase1_results)) * length av_engines"
    by (simp add: length_scan_tasks)
  let ?unit = "\<lambda>file_info. map (\<lambda>av_engine_name.
                      \<lparr>scan_job_id = job_id, scan_container_name = job_get job ''container_name'',
                       scan_file_info = file_info, scan_engine_name = av_engine_name\<rparr>)
                   av_engines"
  have "mset (planned_files ?order phase1_results)
          = mset (map pre_cdr_entry ?order
                  @ map (\<lambda>r. post_cdr_entry (dict_get r ''file_path'') r)
                      (filter successful phase1_results))"
    using mset_planned_files [OF order(1), of phase1_results] same by simp
  from mset_concat_map_cong [OF this, of ?unit]
  have units: "mset (scan_tasks job_id (job_get job ''container_name'')
                  (planned_files ?order phase1_results))
      = mset (concat (map (\<lambda>original_file. ?unit (pre_cdr_entry original_file)) ?order))
        + mset (concat (map (\<lambda>r. ?unit (post_cdr_entry (dict_get r ''file_path'') r))
                         (filter successful phase1_results)))"
    by (simp add: scan_tasks_def comp_def)
  show ?thesis
    using run len units by (simp add: pre_cdr_entry_def post_cdr_entry_def)
qed

lemmas example_results = result_a_glasswall_def result_a_opswat_def result_b_failed_def

lemma phase2_started_ok:
  "update_job 2000 ''j1''
     [(''current_phase'', PInt 2), (''phase2_started_at'', PDatetime 2000)] phase1_store
   = (Inr (), phase2_started)"
  by (simp add: phase2_started_def phase1_store_def job1_def example_results store_defs
      manager_defs add_file_result_def json_dumps_def)

lemma phase2_started_job: "\<exists>job. get_job 2000 ''j1'' phase2_started = Inr (Some job)"
  by (simp add: phase2_started_def phase1_store_def job1_def example_results store_defs
      manager_defs add_file_result_def json_dumps_def)

lemma phase2_started_results:
  "get_phase_results 2000 ''j1'' ''phase1'' phase2_started
     = Inr [PDict result_a_glasswall, PDict result_a_opswat, PDict result_b_failed]"
  by (simp add: phase2_started_def phase1_store_def job1_def example_results store_defs
      manager_defs add_file_result_def json_dumps_def get_phase_results_def lrange_def
      lrange_slice_def List.map_filter_simps)

lemma example_original_files:
  "original_files [result_a_glasswall, result_a_opswat, result_b_failed] = {PStr ''a.pdf''}"
  by (simp add: original_files_def successful_def dict_get_def example_results)

theorem scan_av_batch_count_witness:
  "\<exists>tasks. scan_av_batch (\<lambda>files. [PStr ''a.pdf'']) 2000 ''j1'' phase1_store
              = (Inr tasks, phase2_started)
          \<and> length tasks = 6"
proof -
  let ?rs = "[result_a_glasswall, result_a_opswat, result_b_failed]"
  from phase2_started_job obtain job where
    j: "get_job 2000 ''j1'' phase2_started = Inr (Some job)" by blast
  have d: "all_dicts [PDict result_a_glasswall, PDict result_a_opswat, PDict result_b_failed]
             = Inr ?rs"
    by (simp add: as_dict_def)
  have p: "list_all is_str (map (\<lambda>r. dict_get r ''file_path'') (filter successful ?rs))"
    by (simp add: successful_def dict_get_def is_str_def example_results)
  have o1: "distinct ((\<lambda>files. [PStr ''a.pdf'']) (original_files ?rs))" by simp
  have o2: "set ((\<lambda>files. [PStr ''a.pdf'']) (original_files ?rs)) = original_files ?rs"
    by (simp add: example_original_files)
  have s: "length (filter successful ?rs) = 2"
    by (simp add: successful_def dict_get_def example_results)
  from scan_av_batch_count [OF phase2_started_ok j phase2_started_results d p o1 o2]
  obtain tasks where
    t: "scan_av_batch (\<lambda>files. [PStr ''a.pdf'']) 2000 ''j1'' phase1_store
          = (Inr tasks, phase2_started)"
    and l: "length tasks
              = (card (original_files ?rs) + length (filter successful ?rs)) * length av_engines"
    by blast
  have "length tasks = 6"
    unfolding l example_original_files s by (simp add: av_engines_def)
  with t show ?thesis by blast
qed

section \<open>A Phase-3 unit\<close>

lemma timedelta_unbound: "global_name ''timedelta'' = Inl (NameError ''timedelta'')"
  by (simp add: global_name_def phase3_globals_def)

lemma edr_steps_raises:
  "\<exists>e res st'. edr_steps w task file_path vm result st = (Inl e, res, st')
      \<and> console_queries st' = console_queries st \<and> store st' = store st"
  by (auto simp: edr_steps_def timedelta_unbound execute_file_on_vm_def Let_def
       split: sum.splits pyval.splits option.splits)

lemma map_of_dict_set: "map_of (dict_set k v d) = (map_of d)(k \<mapsto> v)"
  by (induction d) auto

lemma dict_get_error_update:
  "dict_get (dict_update d [(''status'', PStr ''error''), (''error'', x), (''end_time'', y)])
     ''status'' = PStr ''error''"
  by (simp add: dict_get_def dict_update_def map_of_dict_set)

lemma edr_finally_console:
  "edr_finally w vm outcome st = Returns (out, threads, st')
     \<Longrightarrow> out = outcome \<and> console_queries st' = console_queries st \<and> store st' = store st"
  by (auto simp: edr_finally_def split: option.splits exec.splits)

lemma edr_handler_console:
  assumes "edr_handler w retries task result e vm st = Returns (out, threads, st')"
  shows "console_queries st' = console_queries st
         \<and> (\<forall>res. out = Done res \<longrightarrow> dict_get res ''status'' = PStr ''error'')"
  using assms
  by (auto simp: edr_handler_def Let_def dict_get_error_update
       split: prod.splits sum.splits if_splits dest!: edr_finally_console)

text \<open>
  C6 on the sources.  \<^verbatim>\<open>phase3_edr.py\<close> imports \<^verbatim>\<open>datetime\<close> only, so the argument
  \<^verbatim>\<open>execution_end + timedelta(seconds=60)\<close> raises \<^verbatim>\<open>NameError\<close> before \<^verbatim>\<open>get_alerts\<close> is
  called.  Whatever the world, the task and the state: an execution of
  \<^verbatim>\<open>test_single_file_edr\<close> that returns has sent no query to any console, and a result it
  returns has status error, never success.
\<close>

theorem edr_query_never_issued:
  assumes run: "test_single_file_edr w retries task st = Returns (out, threads, st')"
  shows "console_queries st' = console_queries st
         \<and> (\<forall>res. out = Done res \<longrightarrow> dict_get res ''status'' = PStr ''error'')"
proof (cases "map_of (edr_file_info task) ''file_path''")
  case None
  with run show ?thesis by (auto simp: test_single_file_edr_def)
next
  case fp: (Some file_path)
  show ?thesis
  proof (cases "map_of (edr_file_info task) ''version''")
    case None
    with run fp show ?thesis by (auto simp: test_single_file_edr_def)
  next
    case ver: (Some version)
    show ?thesis
    proof (cases "acquire_vm (w_start w) (edr_solution_name task) (pool st)")
      case (Blocked b)
      with run fp ver show ?thesis by (simp add: test_single_file_edr_def Let_def)
    next
      case (Returns a)
      obtain r p1 where a: "a = (r, p1)" by (cases a)
      show ?thesis
      proof (cases r)
        case (Inl e)
        with run fp ver Returns a obtain result where
          "edr_handler w retries task result e None (st\<lparr>pool := p1\<rparr>) = Returns (out, threads, st')"
          by (simp add: test_single_file_edr_def Let_def)
        from edr_handler_console [OF this] show ?thesis by simp
      next
        case (Inr vm)
        define result1 where "result1 = dict_update
              [(''job_id'', PStr (edr_job_id task)),
               (''file_path'', file_path),
               (''version'', version),
               (''cdr_engine'', dict_get (edr_file_info task) ''cdr_engine''),
               (''original_file'', dict_get (edr_file_info task) ''original_file''),
               (''edr_solution_name'', PStr (edr_solution_name task)),
               (''status'', PStr ''pending''),
               (''start_time'', PIso (w_start w))]
              [(''vm_name'', PStr (d_vm_name vm)), (''vm_acquired_at'', PIso (w_start w))]"
        from edr_steps_raises [of w task file_path vm result1 "st\<lparr>pool := p1\<rparr>"]
        obtain e res s2 where
          steps: "edr_steps w task file_path vm result1 (st\<lparr>pool := p1\<rparr>) = (Inl e, res, s2)"
          and c: "console_queries s2 = console_queries st"
          by auto
        from run fp ver Returns a Inr steps have
          "edr_handler w retries task res e (Some vm) s2 = Returns (out, threads, st')"
          by (simp add: test_single_file_edr_def Let_def result1_def)
        from edr_handler_console [OF this] c show ?thesis by simp
      qed
    qed
  qed
qed

lemmas phase3_defs = test_single_file_edr_def edr_steps_def edr_handler_def edr_finally_def
  execute_file_on_vm_def copy_file_to_vm_def acquire_vm_def release_vm_def set_status_def
  clean_and_return_vm_def queue_put_def log_call_def dict_update_def dict_get_def
  add_file_result_def json_dumps_def str_of_error_def edr_clients_def max_retries_def

lemmas phase3_example = phase3_start_def one_vm_pool_def fresh_vm_def world_ok_def edr_unit_def
  blob_ok_def azure_ok_def job1_def

lemma first_attempt:
  "\<exists>st'. test_single_file_edr (world_ok 0) 0 edr_unit phase3_start
           = Returns (RetryRequested (NameError ''timedelta''), [CleanAndReturn 0], st')"
  by (simp add: phase3_defs phase3_example timedelta_unbound store_defs Let_def)

theorem edr_query_never_issued_witness:
  "\<exists>st'. test_single_file_edr (world_ok 0) 0 edr_unit phase3_start
           = Returns (RetryRequested (NameError ''timedelta''), [CleanAndReturn 0], st')
         \<and> console_queries st' = []"
proof -
  from first_attempt obtain st' where
    r: "test_single_file_edr (world_ok 0) 0 edr_unit phase3_start
           = Returns (RetryRequested (NameError ''timedelta''), [CleanAndReturn 0], st')"
    by blast
  from edr_query_never_issued [OF r] have "console_queries st' = []"
    by (simp add: phase3_start_def)
  with r show ?thesis by blast
qed

text \<open>
  C3 on the sources.  The handler appends the error result before it asks for the retry,
  so every execution of a failing unit leaves a record.  The unit below is dispatched
  once; its four executions (the first and three retries) leave four records in the
  Phase-3 list.
\<close>

theorem retried_unit_appends_four:
  "map_option length (phase3_records (run_edr_unit world_ok 0 edr_unit phase3_start)) = Some 4"
  by (simp add: phase3_records_def run_edr_unit.simps phase3_defs phase3_example
       timedelta_unbound store_defs stored_list_def Let_def)

section \<open>Status transitions\<close>

lemma write_fields_lookup:
  "write_fields ts h k = (case map_of (rev ts) k of None \<Rightarrow> h k | Some v \<Rightarrow> Some v)"
proof (induction ts arbitrary: h)
  case Nil
  then show ?case by (simp add: write_fields_def)
next
  case (Cons a ts)
  obtain f v where a: "a = (f, v)" by (cases a)
  have "write_fields (a # ts) h k = write_fields ts (h(f \<mapsto> v)) k"
    by (simp add: a write_fields_def)
  then show ?case
    using Cons.IH [of "h(f \<mapsto> v)"]
    by (auto simp: a map_add_def split: option.splits)
qed

lemma cancel_job_terminal:
  assumes "lookup now db (job_key job_id) = Some (RHash h)" and "job_record h"
    and "h ''status'' = Some st" and "st \<in> set terminal_statuses"
  shows "cancel_job now job_id db = (Inr False, db)"
proof -
  from get_job_record [OF assms(1,2)] assms(3) obtain job where
    "get_job now job_id db = Inr (Some job)" "job ''status'' = Some st" by auto
  then show ?thesis using assms(4) by (simp add: cancel_job_def)
qed

lemma stored_job_lookup:
  "stored_job now db job_id = Some h \<Longrightarrow> lookup now db (job_key job_id) = Some (RHash h)"
  by (auto simp: stored_job_def split: option.splits rvalue.splits)

text \<open>
  C1, as the sources have it.  For a stored job record: \<^verbatim>\<open>cancel_job\<close> leaves a job whose
  status is completed, failed or cancelled exactly as it is; \<^verbatim>\<open>update_job\<close> has no guard:
  after a patch that can be serialised, that the client accepts (not empty, values
  texts or numbers) and that keeps the counters integers, the stored status is the
  status of the patch when the patch carries one, whatever the stored status was, and
  the former status otherwise.
\<close>

theorem status_only_guarded_by_cancel:
  assumes job: "stored_job now db job_id = Some h" and rec: "job_record h"
  shows "(\<forall>st. h ''status'' = Some st \<and> st \<in> set terminal_statuses
            \<longrightarrow> cancel_job now job_id db = (Inr False, db))
       \<and> (\<forall>updates ts. serialize_updates updates = Inr ts \<and> ts \<noteq> []
              \<and> refused (map snd ts) = None \<and> job_record (write_fields ts h)
            \<longrightarrow> (\<exists>db'. update_job now job_id updates db = (Inr (), db')
                   \<and> stored_status now db' job_id
                       = (case map_of (rev ts) ''status'' of
                            None \<Rightarrow> h ''status'' | Some s \<Rightarrow> Some s)))"
proof (intro conjI allI impI)
  fix st
  assume "h ''status'' = Some st \<and> st \<in> set terminal_statuses"
  then show "cancel_job now job_id db = (Inr False, db)"
    using cancel_job_terminal [OF stored_job_lookup [OF job] rec] by blast
next
  fix updates ts
  assume a: "serialize_updates updates = Inr ts \<and> ts \<noteq> []
              \<and> refused (map snd ts) = None \<and> job_record (write_fields ts h)"
  note l = stored_job_lookup [OF job]
  from update_job_record [OF l] a obtain h' where
    u: "update_job now job_id updates db
          = (Inr (), db\<lparr>kv := (kv db)(job_key job_id \<mapsto> RHash h')\<rparr>)"
    and same: "\<forall>f. f \<noteq> ''progress_percentage'' \<longrightarrow> h' f = write_fields ts h f"
    by blast
  have "stored_status now (db\<lparr>kv := (kv db)(job_key job_id \<mapsto> RHash h')\<rparr>) job_id
          = h' ''status''"
    using lookup_kv_upd [OF l] by (simp add: stored_status_def stored_job_def)
  also have "\<dots> = write_fields ts h ''status''" using same by simp
  finally show "\<exists>db'. update_job now job_id updates db = (Inr (), db')
                   \<and> stored_status now db' job_id
                       = (case map_of (rev ts) ''status'' of
                            None \<Rightarrow> h ''status'' | Some s \<Rightarrow> Some s)"
    using u by (simp add: write_fields_lookup)
qed

lemma job1c_stored: "stored_job 3000 job1_cancelled ''j1'' = Some cancelled_record"
  using job1c_wf
  by (auto simp: cancelled_record_def well_formed_store_def stored_job_def
       split: option.splits rvalue.splits)
     (simp add: job1_cancelled_def job1_def store_defs manager_defs)

lemma cancelled_record_ok: "job_record cancelled_record"
  using job1c_wf job1c_stored
  by (auto simp: well_formed_store_def dest!: stored_job_lookup)

lemma cancelled_record_status: "cancelled_record ''status'' = Some (PStr ''cancelled'')"
  by (simp add: cancelled_record_def stored_job_def job1_cancelled_def job1_def store_defs
      manager_defs)

theorem status_only_guarded_by_cancel_witness:
  "stored_job 3000 job1_cancelled ''j1'' = Some cancelled_record
   \<and> job_record cancelled_record
   \<and> cancel_job 3000 ''j1'' job1_cancelled = (Inr False, job1_cancelled)
   \<and> (\<exists>db'. update_job 3000 ''j1'' [(''status'', PStr ''failed'')] job1_cancelled
                = (Inr (), db')
            \<and> stored_status 3000 db' ''j1'' = Some (PStr ''failed''))"
proof -
  note t = status_only_guarded_by_cancel [OF job1c_stored cancelled_record_ok]
  have tm: "cancelled_record ''status'' = Some (PStr ''cancelled'')
                \<and> PStr ''cancelled'' \<in> set terminal_statuses"
    by (simp add: cancelled_record_status terminal_statuses_def)
  have c: "cancel_job 3000 ''j1'' job1_cancelled = (Inr False, job1_cancelled)"
    using t tm by blast
  have ser: "serialize_updates [(''status'', PStr ''failed'')]
               = Inr [(''status'', PStr ''failed'')]"
    by (simp add: serialize_value_def)
  have rec: "job_record (write_fields [(''status'', PStr ''failed'')] cancelled_record)"
    using cancelled_record_ok by (simp add: job_record_def write_fields_def)
  have acc: "[(''status'', PStr ''failed'')] \<noteq> []"
    "refused (map snd [(''status'', PStr ''failed'')]) = None"
    by (simp_all add: refused_def encodable_def)
  from t ser acc rec have
    "\<exists>db'. update_job 3000 ''j1'' [(''status'', PStr ''failed'')] job1_cancelled
                = (Inr (), db')
          \<and> stored_status 3000 db' ''j1''
              = (case map_of (rev [(''status'', PStr ''failed'')]) ''status'' of
                   None \<Rightarrow> cancelled_record ''status'' | Some s \<Rightarrow> Some s)"
    by blast
  then have u: "\<exists>db'. update_job 3000 ''j1'' [(''status'', PStr ''failed'')] job1_cancelled
                = (Inr (), db')
          \<and> stored_status 3000 db' ''j1'' = Some (PStr ''failed'')"
    by simp
  show ?thesis using job1c_stored cancelled_record_ok c u by blast
qed

lemmas callback_defs = on_edr_batch_complete_def phase3_summary_def
  calculate_edr_effectiveness_def py_sum_def py_sub_def py_add_def num_value_def integral_def
  py_number_def reduction_pct_def py_round2_def has_version_def alert_count_of_def

text \<open>
  The patch with which \<^verbatim>\<open>on_edr_batch_complete\<close> means to complete the job carries
  \<^verbatim>\<open>'phase3_completed': True\<close>: the client refuses it and nothing is written, so the
  callback goes on in its \<^verbatim>\<open>except\<close> clause.
\<close>

lemma completed_patch_refused:
  assumes "json_serializable (PDict summary)"
  shows "update_job now job_id
           [(''status'', PStr ''completed''), (''completed_at'', PDatetime now),
            (''phase3_completed'', PBool True), (''phase3_summary'', PDict summary)] db
         = (Inl (invalid_input (PBool True)), db)"
  using assms
  by (simp add: update_job_def serialize_value_def json_dumps_def hset_def refused_def
      encodable_def and_then_def)

text \<open>
  The claim as written fails: the job cancelled at time 2000 is no longer cancelled once
  the Phase-3 completion callback has run at time 4000; its status is then failed.
\<close>

theorem terminal_status_counterexample:
  "stored_status 3000 job1_cancelled ''j1'' = Some (PStr ''cancelled'')
   \<and> stored_status 5000
         (snd (on_edr_batch_complete plain_floats 4000 [] ''j1'' job1_cancelled)) ''j1''
       = Some (PStr ''failed'')"
  by (simp add: stored_status_def stored_job_def job1_cancelled_def job1_def callback_defs
      store_defs manager_defs Let_def json_dumps_def)

end
